theory Spec2Isabelle
  imports Main "HOL-Library.Word"
begin

section \<open>lspit: a command-line client for gopls\<close>

text \<open>
  A shallow embedding of \<^verbatim>\<open>client.go\<close> and \<^verbatim>\<open>main.go\<close>. Go's \<^verbatim>\<open>int\<close> is the
  64-bit machine integer of the usual targets: \<open>+\<close> and \<open>-\<close> wrap, \<open>sint\<close> reads the
  value. A Go \<^verbatim>\<open>string\<close> is its byte sequence.
\<close>

type_synonym goint = "64 word"

subsection \<open>The library functions the client calls\<close>

definition LF :: char where
  "LF = CHR 0x0A"

definition CR :: char where
  "CR = CHR 0x0D"

text \<open>\<^verbatim>\<open>strings.HasPrefix\<close>, \<^verbatim>\<open>HasSuffix\<close>, \<^verbatim>\<open>TrimPrefix\<close>, \<^verbatim>\<open>TrimSuffix\<close>.\<close>

fun HasPrefix :: "string \<Rightarrow> string \<Rightarrow> bool" where
  "HasPrefix s [] = True"
| "HasPrefix [] (p # ps) = False"
| "HasPrefix (c # cs) (p # ps) = (c = p \<and> HasPrefix cs ps)"

definition HasSuffix :: "string \<Rightarrow> string \<Rightarrow> bool" where
  "HasSuffix s suf = HasPrefix (rev s) (rev suf)"

definition TrimPrefix :: "string \<Rightarrow> string \<Rightarrow> string" where
  "TrimPrefix s p = (if HasPrefix s p then drop (length p) s else s)"

definition TrimSuffix :: "string \<Rightarrow> string \<Rightarrow> string" where
  "TrimSuffix s suf = (if HasSuffix s suf then take (length s - length suf) s else s)"

text \<open>The verb \<^verbatim>\<open>%d\<close> of \<^verbatim>\<open>fmt\<close>: a minus sign for a negative value, then the decimal digits.\<close>

fun show_nat :: "nat \<Rightarrow> string" where
  "show_nat n =
     (if n < 10 then [''0123456789'' ! n]
      else show_nat (n div 10) @ [''0123456789'' ! (n mod 10)])"

declare show_nat.simps [simp del]

definition fmt_d :: "goint \<Rightarrow> string" where
  "fmt_d w = (if sint w < 0 then CHR ''-'' # show_nat (nat (- sint w)) else show_nat (nat (sint w)))"

text \<open>\<^verbatim>\<open>fmt.Println\<close> of one string: what it writes to standard output.\<close>

definition Println :: "string \<Rightarrow> string" where
  "Println s = s @ [LF]"

subsection \<open>JSON values\<close>

text \<open>
  One type for the values the client builds (\<^verbatim>\<open>map[string]interface{}\<close> literals) and
  for the values \<^verbatim>\<open>encoding/json\<close> decodes into an \<^verbatim>\<open>interface{}\<close>: \<open>JNull\<close> is
  \<^verbatim>\<open>nil\<close>, \<open>JObject\<close> a \<^verbatim>\<open>map[string]interface{}\<close> with its members in document
  order, \<open>JArray\<close> a \<^verbatim>\<open>[]interface{}\<close>. \<open>JInt\<close> is a Go \<^verbatim>\<open>int\<close> placed in a request;
  \<open>JNumber\<close> is a number as received, kept as its literal (a \<^verbatim>\<open>float64\<close> once decoded
  into an \<^verbatim>\<open>interface{}\<close>).
\<close>

datatype json =
    JNull
  | JBool bool
  | JInt goint
  | JNumber string
  | JString string
  | JArray "json list"
  | JObject "(string \<times> json) list"

text \<open>
  Indexing a decoded object, \<^verbatim>\<open>v["value"]\<close>: the decoder stores the members in order
  into a Go map, so of two members with one key the later one stays.
\<close>

definition map_index :: "(string \<times> json) list \<Rightarrow> string \<Rightarrow> json option" where
  "map_index m k = map_of (rev m) k"

subsection \<open>Errors\<close>

text \<open>
  The error values of the client: those of the operating system and of \<^verbatim>\<open>encoding/json\<close>
  by their kind, an error made from a message, and \<^verbatim>\<open>fmt.Errorf("...: %w", err)\<close>
  around another error.
\<close>

datatype error =
    AbsError
  | PipeError
  | StartError
  | WriteError
  | ReadFileError
  | ExitError
  | SyntaxError
  | UnmarshalTypeError
  | Message string
  | Errorf string error

subsection \<open>Display methods\<close>

text \<open>
  Each display method is modelled by what it writes to standard output, one text for
  each call of \<^verbatim>\<open>fmt.Println\<close> or \<^verbatim>\<open>fmt.Printf\<close> in order, and the error it returns.
\<close>

fun displayHoverItem :: "json \<Rightarrow> string list" where
  "displayHoverItem (JString str) = [Println str]"
| "displayHoverItem (JObject m) =
     (case map_index m ''value'' of
        Some (JString v) \<Rightarrow> [Println v]
      | _ \<Rightarrow> [])"
| "displayHoverItem _ = []"

fun displayHoverInfo :: "json \<Rightarrow> string list \<times> error option" where
  "displayHoverInfo JNull = ([Println ''No hover information available''], None)"
| "displayHoverInfo (JString v) = ([Println v], None)"
| "displayHoverInfo (JObject v) =
     (case map_index v ''value'' of
        Some (JString v0) \<Rightarrow>
          (let v1 = TrimPrefix v0 (''```go'' @ [LF]);
               v2 = TrimPrefix v1 (''```'' @ [LF]);
               v3 = TrimSuffix v2 (LF # ''```'')
           in ([Println v3], None))
      | _ \<Rightarrow> ([], None))"
| "displayHoverInfo (JArray v) = (concat (map displayHoverItem v), None)"
| "displayHoverInfo _ = ([], None)"

text \<open>A decoded location: \<^verbatim>\<open>URI\<close>, \<^verbatim>\<open>Range.Start.Line\<close> and \<^verbatim>\<open>Range.Start.Character\<close>.\<close>

record location =
  URI :: string
  Line :: goint
  Character :: goint

definition printLocation :: "location \<Rightarrow> string" where
  "printLocation loc =
     (let path = TrimPrefix (URI loc) ''file://'';
          line = Line loc + 1;
          col = Character loc + 1
      in path @ '':'' @ fmt_d line @ '':'' @ fmt_d col @ [LF])"

definition displayLocations :: "location list \<Rightarrow> string list \<times> error option" where
  "displayLocations locations =
     (if length locations = 0 then ([Println ''No locations found''], None)
      else (map printLocation locations, None))"

subsection \<open>Reading frames\<close>

text \<open>
  \<^verbatim>\<open>strings.TrimSpace\<close> removes the leading and trailing white space of Unicode; the
  table lists its UTF-8 encodings (U+0009 to U+000D, U+0020, U+0085, U+00A0, U+1680,
  U+2000 to U+200A, U+2028, U+2029, U+202F, U+205F, U+3000).
\<close>

definition spaces :: "string list" where
  "spaces =
     [[CHR 0x09], [CHR 0x0A], [CHR 0x0B], [CHR 0x0C], [CHR 0x0D], [CHR 0x20],
      [CHR 0xC2, CHR 0x85], [CHR 0xC2, CHR 0xA0], [CHR 0xE1, CHR 0x9A, CHR 0x80],
      [CHR 0xE2, CHR 0x80, CHR 0x80], [CHR 0xE2, CHR 0x80, CHR 0x81],
      [CHR 0xE2, CHR 0x80, CHR 0x82], [CHR 0xE2, CHR 0x80, CHR 0x83],
      [CHR 0xE2, CHR 0x80, CHR 0x84], [CHR 0xE2, CHR 0x80, CHR 0x85],
      [CHR 0xE2, CHR 0x80, CHR 0x86], [CHR 0xE2, CHR 0x80, CHR 0x87],
      [CHR 0xE2, CHR 0x80, CHR 0x88], [CHR 0xE2, CHR 0x80, CHR 0x89],
      [CHR 0xE2, CHR 0x80, CHR 0x8A], [CHR 0xE2, CHR 0x80, CHR 0xA8],
      [CHR 0xE2, CHR 0x80, CHR 0xA9], [CHR 0xE2, CHR 0x80, CHR 0xAF],
      [CHR 0xE2, CHR 0x81, CHR 0x9F], [CHR 0xE3, CHR 0x80, CHR 0x80]]"

text \<open>The length of the white space character a string begins with, 0 when it has none.\<close>

definition space_width :: "string list \<Rightarrow> string \<Rightarrow> nat" where
  "space_width table s = (case filter (HasPrefix s) table of [] \<Rightarrow> 0 | sp # _ \<Rightarrow> length sp)"

function TrimLeft :: "string list \<Rightarrow> string \<Rightarrow> string" where
  "TrimLeft table s =
     (case space_width table s of
        0 \<Rightarrow> s
      | Suc n \<Rightarrow> TrimLeft table (drop (Suc n) s))"
  by pat_completeness auto

lemma space_width_Nil: "space_width table [] = 0"
proof (cases "filter (HasPrefix []) table")
  case Nil
  then show ?thesis by (simp add: space_width_def)
next
  case (Cons sp rest)
  then have "sp \<in> set (filter (HasPrefix []) table)" by simp
  then have "HasPrefix [] sp" by simp
  then have "sp = []" by (cases sp) simp_all
  with Cons show ?thesis by (simp add: space_width_def)
qed

termination TrimLeft
proof (relation "measure (\<lambda>(table, s). length s)")
  show "wf (measure (\<lambda>(table, s). length s))" by simp
next
  fix table :: "string list" and s :: string and n :: nat
  assume w: "space_width table s = Suc n"
  have "s \<noteq> []" using w space_width_Nil [of table] by auto
  then show "((table, drop (Suc n) s), (table, s)) \<in> measure (\<lambda>(table, s). length s)"
    by simp
qed

declare TrimLeft.simps [simp del]

definition TrimSpace :: "string \<Rightarrow> string" where
  "TrimSpace s = rev (TrimLeft (map rev spaces) (rev (TrimLeft spaces s)))"

text \<open>\<^verbatim>\<open>strings.SplitN(s, sep, 2)\<close> for a separator of one byte.\<close>

definition SplitN2 :: "string \<Rightarrow> char \<Rightarrow> string list" where
  "SplitN2 s sep =
     (if sep \<in> set s then [takeWhile (\<lambda>c. c \<noteq> sep) s, tl (dropWhile (\<lambda>c. c \<noteq> sep) s)]
      else [s])"

text \<open>
  \<^verbatim>\<open>strconv.Atoi\<close>: an optional sign and decimal digits. The result is the value and
  whether the error is \<^verbatim>\<open>nil\<close>; on a syntax error the value is 0, and a value out of
  range is replaced by the nearest \<^verbatim>\<open>int\<close>. The digits are read from the left by
  \<^verbatim>\<open>ParseUint\<close>, which stops at the first byte that is not a digit (a syntax error) and
  at the first digit with which the value leaves \<^verbatim>\<open>uint64\<close> (a range error),
  whichever comes first.
\<close>

definition is_digit :: "char \<Rightarrow> bool" where
  "is_digit c = (48 \<le> (of_char c :: nat) \<and> (of_char c :: nat) \<le> 57)"

definition digit_val :: "char \<Rightarrow> int" where
  "digit_val c = of_char c - 48"

definition decimal :: "string \<Rightarrow> int" where
  "decimal ds = foldl (\<lambda>n c. 10 * n + digit_val c) 0 ds"

definition MaxInt :: int where
  "MaxInt = 2 ^ 63 - 1"

definition MinInt :: int where
  "MinInt = - (2 ^ 63)"

datatype numError = NoError | ErrSyntax | ErrRange

fun ParseUint :: "nat \<Rightarrow> string \<Rightarrow> nat \<times> numError" where
  "ParseUint n [] = (n, NoError)"
| "ParseUint n (c # cs) =
     (if \<not> is_digit c then (0, ErrSyntax)
      else if (2 ^ 64 - 1) div 10 + 1 \<le> n then (2 ^ 64 - 1, ErrRange)
      else if 2 ^ 64 - 1 < n * 10 + nat (digit_val c) then (2 ^ 64 - 1, ErrRange)
      else ParseUint (n * 10 + nat (digit_val c)) cs)"

definition Atoi :: "string \<Rightarrow> goint \<times> bool" where
  "Atoi s =
     (let neg = (s \<noteq> [] \<and> hd s = CHR ''-'');
          ds = (if s \<noteq> [] \<and> (hd s = CHR ''-'' \<or> hd s = CHR ''+'') then tl s else s)
      in if ds = [] then (0, False)
         else case ParseUint 0 ds of
                (un, ErrSyntax) \<Rightarrow> (0, False)
              | (un, err) \<Rightarrow>
                  if \<not> neg \<and> 2 ^ 63 \<le> un then (word_of_int MaxInt, False)
                  else if neg \<and> 2 ^ 63 < un then (word_of_int MinInt, False)
                  else (if neg then - of_nat un else of_nat un, True))"

text \<open>
  \<^verbatim>\<open>reader.ReadString('\n')\<close> on the bytes the server still writes before it closes
  its output: the line with its newline and the bytes after it, or \<open>None\<close> (the error
  \<^verbatim>\<open>io.EOF\<close>) when the stream ends before a newline.
\<close>

fun ReadString :: "string \<Rightarrow> (string \<times> string) option" where
  "ReadString [] = None"
| "ReadString (c # cs) =
     (if c = LF then Some ([c], cs)
      else case ReadString cs of None \<Rightarrow> None | Some (l, r) \<Rightarrow> Some (c # l, r))"

lemma ReadString_shorter: "ReadString s = Some (l, r) \<Longrightarrow> length r < length s"
  by (induction s arbitrary: l r) (auto split: if_splits option.splits)

text \<open>
  The header loop of \<^verbatim>\<open>readLoop\<close>, from the content length read so far: the content
  length and the bytes after the empty line, or \<open>None\<close> when \<^verbatim>\<open>ReadString\<close> fails.
  The error of \<^verbatim>\<open>Atoi\<close> is dropped, as in the source.
\<close>

function readHeaders :: "goint \<Rightarrow> string \<Rightarrow> (goint \<times> string) option" where
  "readHeaders contentLength input =
     (case ReadString input of
        None \<Rightarrow> None
      | Some (line0, rest) \<Rightarrow>
          (let line = TrimSpace line0
           in if line = [] then Some (contentLength, rest)
              else if HasPrefix line ''Content-Length:''
              then (let parts = SplitN2 line CHR '':''
                    in if length parts = 2
                       then readHeaders (fst (Atoi (TrimSpace (parts ! 1)))) rest
                       else readHeaders contentLength rest)
              else readHeaders contentLength rest))"
  by pat_completeness auto

termination readHeaders
  by (relation "measure (\<lambda>(n, input). length input)") (auto dest: ReadString_shorter)

declare readHeaders.simps [simp del]

text \<open>
  One frame: the headers, then \<^verbatim>\<open>make([]byte, contentLength)\<close> and \<^verbatim>\<open>io.ReadFull\<close>.
  \<^verbatim>\<open>make\<close> panics on a negative length and on one above the largest allocation of the
  runtime (\<open>2 ^ 48\<close> bytes on linux/amd64). Below that bound the allocation succeeds
  when the length is within \<open>mem\<close>, the bytes the runtime can get for the buffer, and
  otherwise the runtime ends the process (out of memory). \<^verbatim>\<open>ReadFull\<close> fails when the
  stream ends before that many bytes.
\<close>

datatype frame = ReadError | MakePanic | OutOfMemory | Content string string

definition maxAlloc :: int where
  "maxAlloc = 2 ^ 48"

definition readFrame :: "nat \<Rightarrow> string \<Rightarrow> frame" where
  "readFrame mem input =
     (case readHeaders 0 input of
        None \<Rightarrow> ReadError
      | Some (contentLength, rest) \<Rightarrow>
          if sint contentLength < 0 \<or> maxAlloc < sint contentLength then MakePanic
          else if mem < nat (sint contentLength) then OutOfMemory
          else if length rest < nat (sint contentLength) then ReadError
          else Content (take (nat (sint contentLength)) rest) (drop (nat (sint contentLength)) rest))"

text \<open>Lines one after the other, each with its newline.\<close>

definition lines :: "string list \<Rightarrow> string" where
  "lines ls = concat (map (\<lambda>l. l @ [LF]) ls)"

subsection \<open>Decoding JSON\<close>

text \<open>
  \<^verbatim>\<open>json.Unmarshal\<close> first checks that the whole input is one JSON value (RFC 8259),
  then decodes it into the target. The model reads the input into a \<open>json\<close> value, byte
  by byte as Go's scanner does, and decodes that value into the target. In a string,
  every byte that begins no well-formed UTF-8 encoding becomes U+FFFD. The model sets
  no bound on the nesting depth (Go refuses a depth over 10000).
\<close>

datatype token =
    TLBrace | TRBrace | TLBracket | TRBracket | TColon | TComma
  | TString string | TNumber string | TTrue | TFalse | TNull

text \<open>
  The scanner's states. A string is collected in reverse, with the high surrogate of a
  \<^verbatim>\<open>\u\<close> escape that still waits for its low surrogate.
\<close>

datatype lexer =
    LStart
  | LString string "nat option"
  | LEscape string "nat option"
  | LUnicode string "nat option" string
  | LNumber string
  | LLiteral string token

definition is_ws :: "char \<Rightarrow> bool" where
  "is_ws c = (c = CHR '' '' \<or> c = CHR 0x09 \<or> c = CHR 0x0A \<or> c = CHR 0x0D)"

definition hex_val :: "char \<Rightarrow> nat option" where
  "hex_val c =
     (let n = (of_char c :: nat)
      in if 48 \<le> n \<and> n \<le> 57 then Some (n - 48)
         else if 97 \<le> n \<and> n \<le> 102 then Some (n - 87)
         else if 65 \<le> n \<and> n \<le> 70 then Some (n - 55)
         else None)"

definition hex_value :: "string \<Rightarrow> nat" where
  "hex_value hs = foldl (\<lambda>n c. 16 * n + (case hex_val c of Some d \<Rightarrow> d | None \<Rightarrow> 0)) 0 hs"

text \<open>The UTF-8 encoding of a code point.\<close>

definition utf8 :: "nat \<Rightarrow> string" where
  "utf8 cp =
     (if cp < 0x80 then [char_of cp]
      else if cp < 0x800 then [char_of (0xC0 + cp div 64), char_of (0x80 + cp mod 64)]
      else if cp < 0x10000
      then [char_of (0xE0 + cp div 4096), char_of (0x80 + cp div 64 mod 64),
            char_of (0x80 + cp mod 64)]
      else [char_of (0xF0 + cp div 262144), char_of (0x80 + cp div 4096 mod 64),
            char_of (0x80 + cp div 64 mod 64), char_of (0x80 + cp mod 64)])"

definition is_high :: "nat \<Rightarrow> bool" where
  "is_high cp = (0xD800 \<le> cp \<and> cp < 0xDC00)"

definition is_low :: "nat \<Rightarrow> bool" where
  "is_low cp = (0xDC00 \<le> cp \<and> cp < 0xE000)"

text \<open>
  \<^verbatim>\<open>utf8.DecodeRune\<close> on bytes that begin with a byte above \<open>0x7F\<close>: the number of bytes
  of the encoding at their head, or 0 when they begin with no well-formed encoding (Go
  then takes one byte and gives U+FFFD).
\<close>

definition rune_size :: "string \<Rightarrow> nat" where
  "rune_size s =
     (case s of
        [] \<Rightarrow> 0
      | c # cs \<Rightarrow>
          (let b = (of_char c :: nat);
               n = (if 0xC2 \<le> b \<and> b \<le> 0xDF then 2
                    else if 0xE0 \<le> b \<and> b \<le> 0xEF then 3
                    else if 0xF0 \<le> b \<and> b \<le> 0xF4 then 4
                    else 0);
               lo = (if b = 0xE0 then 0xA0 else if b = 0xF0 then 0x90 else 0x80);
               hi = (if b = 0xED then 0x9F else if b = 0xF4 then 0x8F else 0xBF)
           in if n = 0 \<or> length cs < n - 1 then 0
              else if (of_char (hd cs) :: nat) < lo \<or> hi < (of_char (hd cs) :: nat) then 0
              else if \<not> list_all (\<lambda>x. 0x80 \<le> (of_char x :: nat) \<and> (of_char x :: nat) \<le> 0xBF)
                         (take (n - 2) (tl cs))
              then 0
              else n))"

text \<open>
  The bytes of a decoded string, from a number of bytes still to copy (the rest of an
  encoding that was found well-formed): each byte that begins no well-formed encoding
  is replaced by U+FFFD.
\<close>

fun to_valid :: "nat \<Rightarrow> string \<Rightarrow> string" where
  "to_valid k [] = []"
| "to_valid k (c # cs) =
     (if 0 < k then c # to_valid (k - 1) cs
      else if (of_char c :: nat) < 0x80 then c # to_valid 0 cs
      else if rune_size (c # cs) = 0 then utf8 0xFFFD @ to_valid 0 cs
      else c # to_valid (rune_size (c # cs) - 1) cs)"

text \<open>A high surrogate that found no low surrogate becomes U+FFFD.\<close>

definition flush :: "nat option \<Rightarrow> string \<Rightarrow> string" where
  "flush pending s = (case pending of None \<Rightarrow> s | Some hi \<Rightarrow> rev (utf8 0xFFFD) @ s)"

definition unicode_escape :: "string \<Rightarrow> nat option \<Rightarrow> nat \<Rightarrow> lexer" where
  "unicode_escape s pending cp =
     (if pending \<noteq> None \<and> is_low cp
      then LString (rev (utf8 (0x10000 + (the pending - 0xD800) * 1024 + (cp - 0xDC00))) @ s) None
      else if is_high cp then LString (flush pending s) (Some cp)
      else if is_low cp then LString (rev (utf8 0xFFFD) @ flush pending s) None
      else LString (rev (utf8 cp) @ flush pending s) None)"

definition unescape :: "char \<Rightarrow> char option" where
  "unescape c =
     (if c = CHR 0x22 \<or> c = CHR 0x5C \<or> c = CHR ''/'' then Some c
      else if c = CHR ''b'' then Some (CHR 0x08)
      else if c = CHR ''f'' then Some (CHR 0x0C)
      else if c = CHR ''n'' then Some (CHR 0x0A)
      else if c = CHR ''r'' then Some (CHR 0x0D)
      else if c = CHR ''t'' then Some (CHR 0x09)
      else None)"

text \<open>The grammar of a number: \<^verbatim>\<open>-?(0|[1-9][0-9]*)(\.[0-9]+)?([eE][+-]?[0-9]+)?\<close>.\<close>

definition exp_ok :: "string \<Rightarrow> bool" where
  "exp_ok r =
     (case r of
        [] \<Rightarrow> True
      | e # r1 \<Rightarrow>
          (e = CHR ''e'' \<or> e = CHR ''E'') \<and>
          (let r2 = (if r1 \<noteq> [] \<and> (hd r1 = CHR ''+'' \<or> hd r1 = CHR ''-'') then tl r1 else r1)
           in r2 \<noteq> [] \<and> list_all is_digit r2))"

definition frac_ok :: "string \<Rightarrow> bool" where
  "frac_ok r =
     (case r of
        [] \<Rightarrow> True
      | c # r1 \<Rightarrow>
          if c = CHR ''.''
          then r1 \<noteq> [] \<and> is_digit (hd r1) \<and> exp_ok (dropWhile is_digit r1)
          else exp_ok r)"

definition number_ok :: "string \<Rightarrow> bool" where
  "number_ok s =
     (let s1 = (if s \<noteq> [] \<and> hd s = CHR ''-'' then tl s else s)
      in case s1 of
           [] \<Rightarrow> False
         | d # r \<Rightarrow>
             if d = CHR ''0'' then frac_ok r
             else is_digit d \<and> frac_ok (dropWhile is_digit r))"

definition is_numchar :: "char \<Rightarrow> bool" where
  "is_numchar c =
     (is_digit c \<or> c = CHR ''+'' \<or> c = CHR ''-'' \<or> c = CHR ''.'' \<or> c = CHR ''e'' \<or> c = CHR ''E'')"

definition start_step :: "token list \<Rightarrow> char \<Rightarrow> (lexer \<times> token list) option" where
  "start_step acc c =
     (if is_ws c then Some (LStart, acc)
      else if c = CHR ''{'' then Some (LStart, TLBrace # acc)
      else if c = CHR ''}'' then Some (LStart, TRBrace # acc)
      else if c = CHR ''['' then Some (LStart, TLBracket # acc)
      else if c = CHR '']'' then Some (LStart, TRBracket # acc)
      else if c = CHR '':'' then Some (LStart, TColon # acc)
      else if c = CHR '','' then Some (LStart, TComma # acc)
      else if c = CHR 0x22 then Some (LString [] None, acc)
      else if c = CHR ''-'' \<or> is_digit c then Some (LNumber [c], acc)
      else if c = CHR ''t'' then Some (LLiteral ''rue'' TTrue, acc)
      else if c = CHR ''f'' then Some (LLiteral ''alse'' TFalse, acc)
      else if c = CHR ''n'' then Some (LLiteral ''ull'' TNull, acc)
      else None)"

fun lex_step :: "lexer \<Rightarrow> token list \<Rightarrow> char \<Rightarrow> (lexer \<times> token list) option" where
  "lex_step LStart acc c = start_step acc c"
| "lex_step (LString s pending) acc c =
     (if c = CHR 0x22 then Some (LStart, TString (to_valid 0 (rev (flush pending s))) # acc)
      else if c = CHR 0x5C then Some (LEscape s pending, acc)
      else if (of_char c :: nat) < 0x20 then None
      else Some (LString (c # flush pending s) None, acc))"
| "lex_step (LEscape s pending) acc c =
     (if c = CHR ''u'' then Some (LUnicode s pending [], acc)
      else case unescape c of
             None \<Rightarrow> None
           | Some b \<Rightarrow> Some (LString (b # flush pending s) None, acc))"
| "lex_step (LUnicode s pending hs) acc c =
     (if hex_val c = None then None
      else if length hs < 3 then Some (LUnicode s pending (c # hs), acc)
      else Some (unicode_escape s pending (hex_value (rev (c # hs))), acc))"
| "lex_step (LNumber n) acc c =
     (if is_numchar c then Some (LNumber (c # n), acc)
      else if number_ok (rev n) then start_step (TNumber (rev n) # acc) c
      else None)"
| "lex_step (LLiteral [] t) acc c = None"
| "lex_step (LLiteral (x # xs) t) acc c =
     (if c \<noteq> x then None
      else if xs = [] then Some (LStart, t # acc)
      else Some (LLiteral xs t, acc))"

fun lex_end :: "lexer \<Rightarrow> token list \<Rightarrow> token list option" where
  "lex_end LStart acc = Some (rev acc)"
| "lex_end (LNumber n) acc = (if number_ok (rev n) then Some (rev (TNumber (rev n) # acc)) else None)"
| "lex_end _ acc = None"

fun lex_from :: "lexer \<Rightarrow> token list \<Rightarrow> string \<Rightarrow> token list option" where
  "lex_from st acc [] = lex_end st acc"
| "lex_from st acc (c # cs) =
     (case lex_step st acc c of
        None \<Rightarrow> None
      | Some (st', acc') \<Rightarrow> lex_from st' acc' cs)"

text \<open>
  The parser over the tokens, with the stack of the arrays and objects that are open:
  an array with its elements so far, an object with its members so far and the key
  whose value is being read (both in reverse).
\<close>

datatype container = InArray "json list" | InObject "(string \<times> json) list" string

datatype parser =
    PValue
  | PArrayStart
  | PObjectStart
  | PKey "(string \<times> json) list"
  | PColon "(string \<times> json) list" string
  | PAfter json

definition scalar :: "token \<Rightarrow> json option" where
  "scalar t =
     (case t of
        TString s \<Rightarrow> Some (JString s)
      | TNumber n \<Rightarrow> Some (JNumber n)
      | TTrue \<Rightarrow> Some (JBool True)
      | TFalse \<Rightarrow> Some (JBool False)
      | TNull \<Rightarrow> Some JNull
      | _ \<Rightarrow> None)"

definition value_step :: "container list \<Rightarrow> token \<Rightarrow> (parser \<times> container list) option" where
  "value_step stack t =
     (if t = TLBracket then Some (PArrayStart, stack)
      else if t = TLBrace then Some (PObjectStart, stack)
      else case scalar t of None \<Rightarrow> None | Some v \<Rightarrow> Some (PAfter v, stack))"

fun parse_step :: "parser \<Rightarrow> container list \<Rightarrow> token \<Rightarrow> (parser \<times> container list) option" where
  "parse_step PValue stack t = value_step stack t"
| "parse_step PArrayStart stack t =
     (if t = TRBracket then Some (PAfter (JArray []), stack)
      else value_step (InArray [] # stack) t)"
| "parse_step PObjectStart stack t =
     (case t of
        TRBrace \<Rightarrow> Some (PAfter (JObject []), stack)
      | TString k \<Rightarrow> Some (PColon [] k, stack)
      | _ \<Rightarrow> None)"
| "parse_step (PKey ms) stack t =
     (case t of TString k \<Rightarrow> Some (PColon ms k, stack) | _ \<Rightarrow> None)"
| "parse_step (PColon ms k) stack t =
     (if t = TColon then Some (PValue, InObject ms k # stack) else None)"
| "parse_step (PAfter v) [] t = None"
| "parse_step (PAfter v) (InArray vs # stack) t =
     (if t = TComma then Some (PValue, InArray (v # vs) # stack)
      else if t = TRBracket then Some (PAfter (JArray (rev (v # vs))), stack)
      else None)"
| "parse_step (PAfter v) (InObject ms k # stack) t =
     (if t = TComma then Some (PKey ((k, v) # ms), stack)
      else if t = TRBrace then Some (PAfter (JObject (rev ((k, v) # ms))), stack)
      else None)"

fun parse_from :: "parser \<Rightarrow> container list \<Rightarrow> token list \<Rightarrow> json option" where
  "parse_from (PAfter v) [] [] = Some v"
| "parse_from st stack [] = None"
| "parse_from st stack (t # ts) =
     (case parse_step st stack t of
        None \<Rightarrow> None
      | Some (st', stack') \<Rightarrow> parse_from st' stack' ts)"

definition json_value :: "string \<Rightarrow> json option" where
  "json_value data =
     (case lex_from LStart [] data of
        None \<Rightarrow> None
      | Some ts \<Rightarrow> parse_from PValue [] ts)"

text \<open>
  A member of an object goes to the struct field whose name equals its key up to case
  (\<^verbatim>\<open>bytes.EqualFold\<close>). The field names here are ASCII; the only characters outside
  ASCII that fold to an ASCII letter are U+017F (to \<open>S\<close>) and U+212A (to \<open>K\<close>).
\<close>

fun foldName :: "string \<Rightarrow> string" where
  "foldName [] = []"
| "foldName (c # cs) =
     (if HasPrefix (c # cs) [CHR 0xC5, CHR 0xBF] then CHR ''S'' # foldName (tl cs)
      else if HasPrefix (c # cs) [CHR 0xE2, CHR 0x84, CHR 0xAA] then CHR ''K'' # foldName (tl (tl cs))
      else if 97 \<le> (of_char c :: nat) \<and> (of_char c :: nat) \<le> 122
      then char_of ((of_char c :: nat) - 32) # foldName cs
      else c # foldName cs)"

definition field :: "string \<Rightarrow> string \<Rightarrow> bool" where
  "field name key = (foldName key = foldName name)"

text \<open>
  A number decoded into an \<^verbatim>\<open>int\<close> field: \<^verbatim>\<open>strconv.ParseInt(literal, 10, 64)\<close>, which
  fails on a fraction, an exponent and a value out of range.
\<close>

definition ParseInt :: "string \<Rightarrow> goint option" where
  "ParseInt literal = (case Atoi literal of (n, ok) \<Rightarrow> if ok then Some n else None)"

text \<open>
  A number decoded into an \<^verbatim>\<open>interface{}\<close> becomes a \<^verbatim>\<open>float64\<close>
  (\<^verbatim>\<open>strconv.ParseFloat\<close>), which fails when the value rounds to infinity: from
  \<open>2 ^ 1024 - 2 ^ 970\<close> on.
\<close>

definition float64_ok :: "string \<Rightarrow> bool" where
  "float64_ok literal =
     (let s = (if literal \<noteq> [] \<and> hd literal = CHR ''-'' then tl literal else literal);
          ip = takeWhile is_digit s;
          r1 = dropWhile is_digit s;
          fp = (if r1 \<noteq> [] \<and> hd r1 = CHR ''.'' then takeWhile is_digit (tl r1) else []);
          r2 = (if r1 \<noteq> [] \<and> hd r1 = CHR ''.'' then dropWhile is_digit (tl r1) else r1);
          ex = (if r2 = [] then 0
                else if tl r2 \<noteq> [] \<and> hd (tl r2) = CHR ''-'' then - decimal (tl (tl r2))
                else if tl r2 \<noteq> [] \<and> hd (tl r2) = CHR ''+'' then decimal (tl (tl r2))
                else decimal (tl r2));
          m = decimal (ip @ fp);
          e = ex - int (length fp);
          bound = 2 ^ 1024 - 2 ^ 970
      in if 0 \<le> e then m * 10 ^ nat e < bound else m < bound * 10 ^ nat (- e))"

fun interface_ok :: "json \<Rightarrow> bool" where
  "interface_ok (JNumber literal) = float64_ok literal"
| "interface_ok (JArray vs) = list_all interface_ok vs"
| "interface_ok (JObject ms) = list_all (\<lambda>m. interface_ok (snd m)) ms"
| "interface_ok _ = True"

text \<open>
  \<^verbatim>\<open>json.RawMessage\<close>: the bytes of one value, kept as the value they spell. \<open>None\<close> is
  the empty message (\<^verbatim>\<open>nil\<close>), which is not the message \<^verbatim>\<open>null\<close>.
\<close>

type_synonym RawMessage = "json option"

text \<open>
  The message struct of \<^verbatim>\<open>readLoop\<close>, with \<^verbatim>\<open>ID *int\<close> and \<^verbatim>\<open>Result json.RawMessage\<close>.
  The decoder works through the members in order; a member that does not fit its field
  is recorded as an error (the flag) and decoding goes on.
\<close>

record message =
  ID :: "goint option"
  Result :: RawMessage

definition message_member :: "message \<times> bool \<Rightarrow> string \<times> json \<Rightarrow> message \<times> bool" where
  "message_member acc m =
     (case acc of (msg, ok) \<Rightarrow>
      case m of (key, v) \<Rightarrow>
        if field ''id'' key
        then (case v of
                JNull \<Rightarrow> (msg\<lparr>ID := None\<rparr>, ok)
              | JNumber literal \<Rightarrow>
                  (case ParseInt literal of
                     Some n \<Rightarrow> (msg\<lparr>ID := Some n\<rparr>, ok)
                   | None \<Rightarrow> (msg\<lparr>ID := Some 0\<rparr>, False))
              | _ \<Rightarrow> (msg\<lparr>ID := Some 0\<rparr>, False))
        else if field ''result'' key then (msg\<lparr>Result := Some v\<rparr>, ok)
        else (msg, ok))"

definition unmarshal_message :: "string \<Rightarrow> error + message" where
  "unmarshal_message content =
     (case json_value content of
        None \<Rightarrow> Inl SyntaxError
      | Some JNull \<Rightarrow> Inr \<lparr>ID = None, Result = None\<rparr>
      | Some (JObject ms) \<Rightarrow>
          (case foldl message_member (\<lparr>ID = None, Result = None\<rparr>, True) ms of
             (msg, ok) \<Rightarrow> if ok then Inr msg else Inl UnmarshalTypeError)
      | Some _ \<Rightarrow> Inl UnmarshalTypeError)"

text \<open>
  The result struct of \<^verbatim>\<open>Hover\<close>, with \<^verbatim>\<open>Contents\<close> and \<^verbatim>\<open>Range\<close>, both
  \<^verbatim>\<open>interface{}\<close>; only \<^verbatim>\<open>Contents\<close> is used.
\<close>

definition hover_member :: "json \<times> bool \<Rightarrow> string \<times> json \<Rightarrow> json \<times> bool" where
  "hover_member acc m =
     (case acc of (contents, ok) \<Rightarrow>
      case m of (key, v) \<Rightarrow>
        if field ''contents'' key then (v, ok \<and> interface_ok v)
        else if field ''range'' key then (contents, ok \<and> interface_ok v)
        else (contents, ok))"

definition unmarshal_hover :: "RawMessage \<Rightarrow> error + json" where
  "unmarshal_hover resp =
     (case resp of
        None \<Rightarrow> Inl SyntaxError
      | Some JNull \<Rightarrow> Inr JNull
      | Some (JObject ms) \<Rightarrow>
          (case foldl hover_member (JNull, True) ms of
             (contents, ok) \<Rightarrow> if ok then Inr contents else Inl UnmarshalTypeError)
      | Some _ \<Rightarrow> Inl UnmarshalTypeError)"

text \<open>The location structs of \<^verbatim>\<open>Definition\<close> and \<^verbatim>\<open>References\<close>.\<close>

definition int_field :: "goint \<times> bool \<Rightarrow> json \<Rightarrow> goint \<times> bool" where
  "int_field acc v =
     (case acc of (n, ok) \<Rightarrow>
      case v of
        JNull \<Rightarrow> (n, ok)
      | JNumber literal \<Rightarrow> (case ParseInt literal of Some k \<Rightarrow> (k, ok) | None \<Rightarrow> (n, False))
      | _ \<Rightarrow> (n, False))"

definition start_member :: "location \<times> bool \<Rightarrow> string \<times> json \<Rightarrow> location \<times> bool" where
  "start_member acc m =
     (case acc of (loc, ok) \<Rightarrow>
      case m of (key, v) \<Rightarrow>
        if field ''line'' key
        then (case int_field (Line loc, ok) v of (n, ok') \<Rightarrow> (loc\<lparr>Line := n\<rparr>, ok'))
        else if field ''character'' key
        then (case int_field (Character loc, ok) v of (n, ok') \<Rightarrow> (loc\<lparr>Character := n\<rparr>, ok'))
        else (loc, ok))"

definition range_member :: "location \<times> bool \<Rightarrow> string \<times> json \<Rightarrow> location \<times> bool" where
  "range_member acc m =
     (case acc of (loc, ok) \<Rightarrow>
      case m of (key, v) \<Rightarrow>
        if field ''start'' key
        then (case v of
                JNull \<Rightarrow> (loc, ok)
              | JObject ms \<Rightarrow> foldl start_member (loc, ok) ms
              | _ \<Rightarrow> (loc, False))
        else (loc, ok))"

definition location_member :: "location \<times> bool \<Rightarrow> string \<times> json \<Rightarrow> location \<times> bool" where
  "location_member acc m =
     (case acc of (loc, ok) \<Rightarrow>
      case m of (key, v) \<Rightarrow>
        if field ''uri'' key
        then (case v of
                JNull \<Rightarrow> (loc, ok)
              | JString s \<Rightarrow> (loc\<lparr>URI := s\<rparr>, ok)
              | _ \<Rightarrow> (loc, False))
        else if field ''range'' key
        then (case v of
                JNull \<Rightarrow> (loc, ok)
              | JObject ms \<Rightarrow> foldl range_member (loc, ok) ms
              | _ \<Rightarrow> (loc, False))
        else (loc, ok))"

definition location_element :: "json \<Rightarrow> location \<times> bool" where
  "location_element v =
     (case v of
        JNull \<Rightarrow> (\<lparr>URI = [], Line = 0, Character = 0\<rparr>, True)
      | JObject ms \<Rightarrow> foldl location_member (\<lparr>URI = [], Line = 0, Character = 0\<rparr>, True) ms
      | _ \<Rightarrow> (\<lparr>URI = [], Line = 0, Character = 0\<rparr>, False))"

definition unmarshal_locations :: "RawMessage \<Rightarrow> error + location list" where
  "unmarshal_locations resp =
     (case resp of
        None \<Rightarrow> Inl SyntaxError
      | Some JNull \<Rightarrow> Inr []
      | Some (JArray vs) \<Rightarrow>
          (if list_all (\<lambda>v. snd (location_element v)) vs
           then Inr (map (\<lambda>v. fst (location_element v)) vs)
           else Inl UnmarshalTypeError)
      | Some _ \<Rightarrow> Inl UnmarshalTypeError)"

subsection \<open>Encoding JSON\<close>

text \<open>
  \<^verbatim>\<open>json.Marshal\<close> of the values the client builds: the members of a map sorted by
  key, no white space, strings quoted with Go's escapes (as of Go 1.22; the HTML
  characters are escaped too). Of the bytes above \<open>0x7F\<close>, a well-formed encoding is
  copied, but U+2028 and U+2029 are written as escapes, and a byte that begins no
  well-formed encoding is written as the escape of U+FFFD.
\<close>

definition hex_digit :: "nat \<Rightarrow> char" where
  "hex_digit n = ''0123456789abcdef'' ! n"

definition escape :: "char \<Rightarrow> string" where
  "escape c =
     (let n = (of_char c :: nat)
      in if c = CHR 0x22 then [CHR 0x5C, CHR 0x22]
         else if c = CHR 0x5C then [CHR 0x5C, CHR 0x5C]
         else if n = 0x08 then [CHR 0x5C, CHR ''b'']
         else if n = 0x0C then [CHR 0x5C, CHR ''f'']
         else if n = 0x0A then [CHR 0x5C, CHR ''n'']
         else if n = 0x0D then [CHR 0x5C, CHR ''r'']
         else if n = 0x09 then [CHR 0x5C, CHR ''t'']
         else if n < 0x20 \<or> c = CHR ''<'' \<or> c = CHR ''>'' \<or> c = CHR ''&''
         then [CHR 0x5C, CHR ''u'', CHR ''0'', CHR ''0'', hex_digit (n div 16), hex_digit (n mod 16)]
         else [c])"

text \<open>
  The bytes of a string escaped, from a number of bytes still to copy and a number of
  bytes still to pass over (the rest of an encoding that was copied or escaped).
\<close>

fun escape_from :: "nat \<Rightarrow> nat \<Rightarrow> string \<Rightarrow> string" where
  "escape_from k j [] = []"
| "escape_from k j (c # cs) =
     (if 0 < k then c # escape_from (k - 1) j cs
      else if 0 < j then escape_from 0 (j - 1) cs
      else if (of_char c :: nat) < 0x80 then escape c @ escape_from 0 0 cs
      else if HasPrefix (c # cs) [CHR 0xE2, CHR 0x80, CHR 0xA8]
      then [CHR 0x5C] @ ''u2028'' @ escape_from 0 2 cs
      else if HasPrefix (c # cs) [CHR 0xE2, CHR 0x80, CHR 0xA9]
      then [CHR 0x5C] @ ''u2029'' @ escape_from 0 2 cs
      else if rune_size (c # cs) = 0 then [CHR 0x5C] @ ''ufffd'' @ escape_from 0 0 cs
      else c # escape_from (rune_size (c # cs) - 1) 0 cs)"

definition quote :: "string \<Rightarrow> string" where
  "quote s = [CHR 0x22] @ escape_from 0 0 s @ [CHR 0x22]"

fun bytes_less :: "string \<Rightarrow> string \<Rightarrow> bool" where
  "bytes_less [] [] = False"
| "bytes_less [] (b # bs) = True"
| "bytes_less (a # as) [] = False"
| "bytes_less (a # as) (b # bs) = ((of_char a :: nat) < of_char b \<or> (a = b \<and> bytes_less as bs))"

text \<open>One encoded member into the sorted members; a key met again replaces the earlier one.\<close>

fun insert_member :: "string \<times> string \<Rightarrow> (string \<times> string) list \<Rightarrow> (string \<times> string) list" where
  "insert_member m [] = [m]"
| "insert_member m (x # xs) =
     (if bytes_less (fst m) (fst x) then m # x # xs
      else if fst m = fst x then m # xs
      else x # insert_member m xs)"

fun join :: "string list \<Rightarrow> string" where
  "join [] = []"
| "join [x] = x"
| "join (x # y # ys) = x @ '','' @ join (y # ys)"

fun Marshal :: "json \<Rightarrow> string" where
  "Marshal JNull = ''null''"
| "Marshal (JBool b) = (if b then ''true'' else ''false'')"
| "Marshal (JInt n) = fmt_d n"
| "Marshal (JNumber literal) = literal"
| "Marshal (JString s) = quote s"
| "Marshal (JArray vs) = ''['' @ join (map Marshal vs) @ '']''"
| "Marshal (JObject ms) =
     ''{'' @ join (map (\<lambda>m. quote (fst m) @ '':'' @ snd m)
                  (foldl (\<lambda>acc m. insert_member m acc) []
                     (map (\<lambda>m. (fst m, Marshal (snd m))) ms))) @ ''}''"

subsection \<open>The messages the client sends\<close>

definition shutdownReq :: "goint \<Rightarrow> json" where
  "shutdownReq id0 =
     JObject [(''jsonrpc'', JString ''2.0''), (''id'', JInt id0),
              (''method'', JString ''shutdown''), (''params'', JNull)]"

definition exitNotif :: json where
  "exitNotif = JObject [(''jsonrpc'', JString ''2.0''), (''method'', JString ''exit'')]"

definition initReq :: "string \<Rightarrow> goint \<Rightarrow> json" where
  "initReq workspaceRoot id0 =
     JObject [(''jsonrpc'', JString ''2.0''), (''id'', JInt id0),
              (''method'', JString ''initialize''),
              (''params'', JObject
                 [(''processId'', JNull),
                  (''rootUri'', JString (''file://'' @ workspaceRoot)),
                  (''capabilities'', JObject
                     [(''textDocument'', JObject
                        [(''hover'', JObject
                            [(''contentFormat'',
                              JArray [JString ''plaintext'', JString ''markdown''])]),
                         (''definition'', JObject [(''linkSupport'', JBool True)]),
                         (''references'', JObject [])])])])]"

definition initializedNotif :: json where
  "initializedNotif =
     JObject [(''jsonrpc'', JString ''2.0''), (''method'', JString ''initialized''),
              (''params'', JObject [])]"

definition didOpenNotif :: "string \<Rightarrow> string \<Rightarrow> json" where
  "didOpenNotif filePath content =
     JObject [(''jsonrpc'', JString ''2.0''), (''method'', JString ''textDocument/didOpen''),
              (''params'', JObject
                 [(''textDocument'', JObject
                     [(''uri'', JString (''file://'' @ filePath)),
                      (''languageId'', JString ''go''),
                      (''version'', JInt 1),
                      (''text'', JString content)])])]"

definition hoverReq :: "string \<Rightarrow> goint \<Rightarrow> goint \<Rightarrow> goint \<Rightarrow> json" where
  "hoverReq filePath line col id0 =
     JObject [(''jsonrpc'', JString ''2.0''), (''id'', JInt id0),
              (''method'', JString ''textDocument/hover''),
              (''params'', JObject
                 [(''textDocument'', JObject [(''uri'', JString (''file://'' @ filePath))]),
                  (''position'', JObject
                     [(''line'', JInt (line - 1)), (''character'', JInt (col - 1))])])]"

definition defReq :: "string \<Rightarrow> goint \<Rightarrow> goint \<Rightarrow> goint \<Rightarrow> json" where
  "defReq filePath line col id0 =
     JObject [(''jsonrpc'', JString ''2.0''), (''id'', JInt id0),
              (''method'', JString ''textDocument/definition''),
              (''params'', JObject
                 [(''textDocument'', JObject [(''uri'', JString (''file://'' @ filePath))]),
                  (''position'', JObject
                     [(''line'', JInt (line - 1)), (''character'', JInt (col - 1))])])]"

definition refsReq :: "string \<Rightarrow> goint \<Rightarrow> goint \<Rightarrow> goint \<Rightarrow> json" where
  "refsReq filePath line col id0 =
     JObject [(''jsonrpc'', JString ''2.0''), (''id'', JInt id0),
              (''method'', JString ''textDocument/references''),
              (''params'', JObject
                 [(''textDocument'', JObject [(''uri'', JString (''file://'' @ filePath))]),
                  (''position'', JObject
                     [(''line'', JInt (line - 1)), (''character'', JInt (col - 1))]),
                  (''context'', JObject [(''includeDeclaration'', JBool True)])])]"



subsection \<open>The client and its goroutines\<close>

text \<open>
  What the program asks of its surroundings, and what they answer: \<open>Ok\<close>, \<open>Fail\<close>
  (the call returns an error), or \<open>Out\<close> with the bytes read.
\<close>

datatype query =
    Abs string
  | Stat string
  | GitRevParse string
  | StdinPipe
  | StdoutPipe
  | StderrPipe
  | CmdStart
  | ReadFile string

datatype answer = Ok | Fail | Out string

text \<open>
  The history of a run, in order: the ids taken, the channels registered, the writes on
  the pipe to the server with their results, the reader's deliveries, the receptions,
  what was printed and asked, the closings and the wait for the server.
\<close>

datatype action =
    GotID goint
  | Registered goint nat
  | Written string "error option"
  | Delivered goint nat RawMessage
  | Received nat RawMessage
  | Printed string
  | PrintedErr string "error option"
  | Asked query answer
  | DoneClosed
  | StdinClosed
  | Waited "error option"

text \<open>Where \<^verbatim>\<open>readLoop\<close> stands: before it is started, at the \<^verbatim>\<open>select\<close> on
  \<^verbatim>\<open>c.done\<close>, reading a frame, sending on a channel with \<^verbatim>\<open>c.mu\<close> held, or returned.\<close>

datatype reader_pc = NotStarted | Select | Reading | Sending message | Returned

text \<open>
  The struct \<^verbatim>\<open>LSPClient\<close> with what its fields refer to: the buffered channels made so
  far (\<open>chans\<close>, by address; \<open>nchans\<close> of them), whether \<^verbatim>\<open>done\<close> and the pipe to the
  server are closed, the bytes of the server's output not read yet, the bytes the
  runtime can get for the buffer of a frame, the state of the goroutine of
  \<^verbatim>\<open>readLoop\<close>, whether the process has died (a goroutine has panicked, or the
  runtime has run out of memory), and the history.
  \<^verbatim>\<open>workspaceRoot\<close> never changes and is passed to \<^verbatim>\<open>Initialize\<close>.
\<close>

record LSPClient =
  nextID :: goint
  responses :: "goint \<rightharpoonup> nat"
  chans :: "nat \<Rightarrow> RawMessage list"
  nchans :: nat
  doneClosed :: bool
  stdinClosed :: bool
  unread :: string
  memory :: nat
  reader :: reader_pc
  panicked :: bool
  history :: "action list"

definition log :: "action \<Rightarrow> LSPClient \<Rightarrow> LSPClient" where
  "log a c = c\<lparr>history := history c @ [a]\<rparr>"

definition getNextID :: "LSPClient \<Rightarrow> goint \<times> LSPClient" where
  "getNextID c = (let id0 = nextID c in (id0, c\<lparr>nextID := nextID c + 1\<rparr>))"

text \<open>\<^verbatim>\<open>make(chan json.RawMessage, 1)\<close> is a new channel with an empty buffer.\<close>

definition registerResponse :: "goint \<Rightarrow> LSPClient \<Rightarrow> nat \<times> LSPClient" where
  "registerResponse id0 c =
     (let ch = nchans c
      in (ch, c\<lparr>chans := (chans c)(ch := []), nchans := Suc ch,
                responses := (responses c)(id0 \<mapsto> ch)\<rparr>))"

text \<open>
  The end of an iteration of \<^verbatim>\<open>readLoop\<close>, from \<^verbatim>\<open>msg.ID != nil\<close> on. The channels
  have capacity 1: the send goes through when the buffer is empty, and otherwise the
  goroutine waits (\<open>None\<close>), holding the lock.
\<close>

definition dispatch :: "message \<Rightarrow> LSPClient \<Rightarrow> LSPClient option" where
  "dispatch msg c =
     (case ID msg of
        None \<Rightarrow> Some c
      | Some id0 \<Rightarrow>
          (case responses c id0 of
             None \<Rightarrow> Some c
           | Some ch \<Rightarrow>
               if length (chans c ch) < 1
               then Some (log (Delivered id0 ch (Result msg))
                            (c\<lparr>chans := (chans c)(ch := chans c ch @ [Result msg]),
                               responses := (responses c)(id0 := None)\<rparr>))
               else None))"

text \<open>One step of the goroutine of \<^verbatim>\<open>readLoop\<close>; \<open>None\<close> when it cannot move.\<close>

definition reader_step :: "LSPClient \<Rightarrow> LSPClient option" where
  "reader_step c =
     (case reader c of
        NotStarted \<Rightarrow> None
      | Returned \<Rightarrow> None
      | Select \<Rightarrow> Some (c\<lparr>reader := (if doneClosed c then Returned else Reading)\<rparr>)
      | Reading \<Rightarrow>
          (case readFrame (memory c) (unread c) of
             ReadError \<Rightarrow> Some (c\<lparr>reader := Returned\<rparr>)
           | MakePanic \<Rightarrow> Some (c\<lparr>panicked := True\<rparr>)
           | OutOfMemory \<Rightarrow> Some (c\<lparr>panicked := True\<rparr>)
           | Content content rest \<Rightarrow>
               (case unmarshal_message content of
                  Inl err \<Rightarrow> Some (c\<lparr>unread := rest, reader := Select\<rparr>)
                | Inr msg \<Rightarrow>
                    (case dispatch msg (c\<lparr>unread := rest, reader := Select\<rparr>) of
                       Some c' \<Rightarrow> Some c'
                     | None \<Rightarrow> Some (c\<lparr>unread := rest, reader := Sending msg\<rparr>))))
      | Sending msg \<Rightarrow> dispatch msg (c\<lparr>reader := Select\<rparr>))"

text \<open>
  The calling goroutine: what it does next and how it goes on with the result. The Go
  methods below are written in this form, one constructor per effect, in the order of
  the source.
\<close>

datatype 'r prog =
    Return 'r
  | GetNextID "goint \<Rightarrow> 'r prog"
  | RegisterResponse goint "nat \<Rightarrow> 'r prog"
  | StdinWrite string "error option \<Rightarrow> 'r prog"
  | Recv nat "RawMessage \<Rightarrow> 'r prog"
  | Print string "'r prog"
  | PrintErr string "error option" "'r prog"
  | Ask query "answer \<Rightarrow> 'r prog"
  | Spawn "'r prog"
  | CloseDone "'r prog"
  | StdinClose "'r prog"
  | CmdWait "error option \<Rightarrow> 'r prog"

primrec bind :: "'a prog \<Rightarrow> ('a \<Rightarrow> 'b prog) \<Rightarrow> 'b prog" where
  "bind (Return r) f = f r"
| "bind (GetNextID k) f = GetNextID (\<lambda>x. bind (k x) f)"
| "bind (RegisterResponse id0 k) f = RegisterResponse id0 (\<lambda>x. bind (k x) f)"
| "bind (StdinWrite data k) f = StdinWrite data (\<lambda>x. bind (k x) f)"
| "bind (Recv ch k) f = Recv ch (\<lambda>x. bind (k x) f)"
| "bind (Print s p) f = Print s (bind p f)"
| "bind (PrintErr s e p) f = PrintErr s e (bind p f)"
| "bind (Ask q k) f = Ask q (\<lambda>x. bind (k x) f)"
| "bind (Spawn p) f = Spawn (bind p f)"
| "bind (CloseDone p) f = CloseDone (bind p f)"
| "bind (StdinClose p) f = StdinClose (bind p f)"
| "bind (CmdWait k) f = CmdWait (\<lambda>x. bind (k x) f)"

text \<open>
  One step of the calling goroutine, with the answer of the surroundings where the
  step asks for one; \<open>None\<close> when it cannot move: it has returned, it waits for the
  lock, or it waits on an empty channel. A write fails when the surroundings say so
  and on a closed pipe; closing a closed channel panics, and the call does not return.
\<close>

definition locked :: "LSPClient \<Rightarrow> bool" where
  "locked c = (case reader c of Sending msg \<Rightarrow> True | _ \<Rightarrow> False)"

fun caller_step :: "answer \<Rightarrow> 'r prog \<Rightarrow> LSPClient \<Rightarrow> ('r prog \<times> LSPClient) option" where
  "caller_step a (Return r) c = None"
| "caller_step a (GetNextID k) c =
     (if locked c then None
      else case getNextID c of (id0, c') \<Rightarrow> Some (k id0, log (GotID id0) c'))"
| "caller_step a (RegisterResponse id0 k) c =
     (if locked c then None
      else case registerResponse id0 c of (ch, c') \<Rightarrow> Some (k ch, log (Registered id0 ch) c'))"
| "caller_step a (StdinWrite data k) c =
     (let err = (if stdinClosed c \<or> a = Fail then Some WriteError else None)
      in Some (k err, log (Written data err) c))"
| "caller_step a (Recv ch k) c =
     (case chans c ch of
        [] \<Rightarrow> None
      | v # vs \<Rightarrow> Some (k v, log (Received ch v) (c\<lparr>chans := (chans c)(ch := vs)\<rparr>)))"
| "caller_step a (Print s p) c = Some (p, log (Printed s) c)"
| "caller_step a (PrintErr s e p) c = Some (p, log (PrintedErr s e) c)"
| "caller_step a (Ask q k) c = Some (k a, log (Asked q a) c)"
| "caller_step a (Spawn p) c =
     Some (p, c\<lparr>nextID := 1, responses := Map.empty, doneClosed := False, reader := Select\<rparr>)"
| "caller_step a (CloseDone p) c =
     (if doneClosed c then Some (CloseDone p, c\<lparr>panicked := True\<rparr>)
      else Some (p, log DoneClosed (c\<lparr>doneClosed := True\<rparr>)))"
| "caller_step a (StdinClose p) c = Some (p, log StdinClosed (c\<lparr>stdinClosed := True\<rparr>))"
| "caller_step a (CmdWait k) c =
     (let err = (if a = Fail then Some ExitError else None)
      in Some (k err, log (Waited err) c))"

text \<open>
  A run is a list of events: at each, the goroutine of \<^verbatim>\<open>readLoop\<close> or the calling
  goroutine moves. An event whose goroutine cannot move changes nothing, and nothing
  moves after a panic.
\<close>

datatype event = Reader | Caller answer

definition step :: "'r prog \<times> LSPClient \<Rightarrow> event \<Rightarrow> 'r prog \<times> LSPClient" where
  "step s e =
     (case s of (p, c) \<Rightarrow>
        if panicked c then s
        else case e of
               Reader \<Rightarrow> (case reader_step c of None \<Rightarrow> s | Some c' \<Rightarrow> (p, c'))
             | Caller a \<Rightarrow> (case caller_step a p c of None \<Rightarrow> s | Some s' \<Rightarrow> s'))"

definition run :: "event list \<Rightarrow> 'r prog \<times> LSPClient \<Rightarrow> 'r prog \<times> LSPClient" where
  "run es s = foldl step s es"

text \<open>
  What the calling goroutine may do from a program on: the actions of a part of a run,
  in order, and the program that is left. The reader's deliveries are not among them.
\<close>

inductive trace :: "'r prog \<Rightarrow> action list \<Rightarrow> 'r prog \<Rightarrow> bool" where
  trace_Nil: "trace p [] p"
| trace_GetNextID: "trace (k id0) as p' \<Longrightarrow> trace (GetNextID k) (GotID id0 # as) p'"
| trace_RegisterResponse:
    "trace (k ch) as p' \<Longrightarrow> trace (RegisterResponse id0 k) (Registered id0 ch # as) p'"
| trace_StdinWrite: "trace (k e) as p' \<Longrightarrow> trace (StdinWrite data k) (Written data e # as) p'"
| trace_Recv: "trace (k v) as p' \<Longrightarrow> trace (Recv ch k) (Received ch v # as) p'"
| trace_Print: "trace p as p' \<Longrightarrow> trace (Print s p) (Printed s # as) p'"
| trace_PrintErr: "trace p as p' \<Longrightarrow> trace (PrintErr s e p) (PrintedErr s e # as) p'"
| trace_Ask: "trace (k a) as p' \<Longrightarrow> trace (Ask q k) (Asked q a # as) p'"
| trace_Spawn: "trace p as p' \<Longrightarrow> trace (Spawn p) as p'"
| trace_CloseDone: "trace p as p' \<Longrightarrow> trace (CloseDone p) (DoneClosed # as) p'"
| trace_StdinClose: "trace p as p' \<Longrightarrow> trace (StdinClose p) (StdinClosed # as) p'"
| trace_CmdWait: "trace (k e) as p' \<Longrightarrow> trace (CmdWait k) (Waited e # as) p'"

text \<open>A list is a prefix of another.\<close>

fun is_prefix :: "'a list \<Rightarrow> 'a list \<Rightarrow> bool" where
  "is_prefix [] ys = True"
| "is_prefix (x # xs) [] = False"
| "is_prefix (x # xs) (y # ys) = (x = y \<and> is_prefix xs ys)"

fun own :: "action list \<Rightarrow> action list" where
  "own [] = []"
| "own (Delivered id0 ch r # h) = own h"
| "own (a # h) = a # own h"

text \<open>The history of a run from the client \<open>c\<close> on.\<close>

definition since :: "LSPClient \<Rightarrow> LSPClient \<Rightarrow> action list" where
  "since c c' = drop (length (history c)) (history c')"

text \<open>
  The process before \<^verbatim>\<open>main\<close>, with the bytes the runtime can get for the buffer of a
  frame and the bytes the server will write once started.
\<close>

definition process :: "nat \<Rightarrow> string \<Rightarrow> LSPClient" where
  "process mem output =
     \<lparr>nextID = 0, responses = Map.empty, chans = (\<lambda>ch. []), nchans = 0,
      doneClosed = False, stdinClosed = False, unread = output, memory = mem,
      reader = NotStarted, panicked = False, history = []\<rparr>"

text \<open>What the process has written to its standard output.\<close>

fun printed :: "action list \<Rightarrow> string" where
  "printed [] = []"
| "printed (Printed s # h) = s @ printed h"
| "printed (a # h) = printed h"

text \<open>What it has written to its standard error: each text with the error put after it.\<close>

fun diagnostics :: "action list \<Rightarrow> (string \<times> error option) list" where
  "diagnostics [] = []"
| "diagnostics (PrintedErr s e # h) = (s, e) # diagnostics h"
| "diagnostics (a # h) = diagnostics h"


text \<open>
  The registry and the channels fit together: a registered channel has been made and
  its buffer is empty, no channel is registered for two ids, and the reader is not
  waiting to send with the lock held.
\<close>

definition chans_ok :: "LSPClient \<Rightarrow> bool" where
  "chans_ok c \<longleftrightarrow>
     (\<forall>i ch. responses c i = Some ch \<longrightarrow> ch < nchans c \<and> chans c ch = []) \<and>
     (\<forall>i j ch. responses c i = Some ch \<and> responses c j = Some ch \<longrightarrow> i = j) \<and>
     \<not> locked c"

subsection \<open>The methods of the client\<close>

text \<open>The bytes of \<^verbatim>\<open>fmt.Sprintf("Content-Length: %d\\r\\n\\r\\n%s", len(data), data)\<close>.\<close>

definition framed :: "string \<Rightarrow> string" where
  "framed data = ''Content-Length: '' @ fmt_d (of_nat (length data)) @ [CR, LF, CR, LF] @ data"

definition sendMessage :: "string \<Rightarrow> (error option \<Rightarrow> 'r prog) \<Rightarrow> 'r prog" where
  "sendMessage data k = StdinWrite (framed data) k"

definition sendRequest :: "json \<Rightarrow> (error option \<Rightarrow> 'r prog) \<Rightarrow> 'r prog" where
  "sendRequest req k = sendMessage (Marshal req) k"

definition sendNotification :: "json \<Rightarrow> (error option \<Rightarrow> 'r prog) \<Rightarrow> 'r prog" where
  "sendNotification notif k = sendMessage (Marshal notif) k"

text \<open>
  \<^verbatim>\<open>NewLSPClient\<close>: the three pipes, \<^verbatim>\<open>cmd.Start()\<close>, the struct with \<^verbatim>\<open>nextID: 1\<close>
  and an empty map, and \<^verbatim>\<open>go client.readLoop()\<close>.
\<close>

definition NewLSPClient :: "(error option \<Rightarrow> 'r prog) \<Rightarrow> 'r prog" where
  "NewLSPClient k =
     Ask StdinPipe (\<lambda>a.
       if a = Fail then k (Some (Errorf ''failed to get stdin pipe'' PipeError))
       else Ask StdoutPipe (\<lambda>a.
         if a = Fail then k (Some (Errorf ''failed to get stdout pipe'' PipeError))
         else Ask StderrPipe (\<lambda>a.
           if a = Fail then k (Some (Errorf ''failed to get stderr pipe'' PipeError))
           else Ask CmdStart (\<lambda>a.
             if a = Fail then k (Some (Errorf ''failed to start gopls'' StartError))
             else Spawn (k None)))))"

definition Close :: "error option prog" where
  "Close =
     GetNextID (\<lambda>id0.
       sendRequest (shutdownReq id0) (\<lambda>err.
         sendNotification exitNotif (\<lambda>err.
           CloseDone (StdinClose (CmdWait Return)))))"

definition Initialize :: "string \<Rightarrow> error option prog" where
  "Initialize workspaceRoot =
     GetNextID (\<lambda>id0.
       RegisterResponse id0 (\<lambda>respChan.
         sendRequest (initReq workspaceRoot id0) (\<lambda>err.
           case err of
             Some e \<Rightarrow> Return (Some (Errorf ''failed to send initialize request'' e))
           | None \<Rightarrow> Recv respChan (\<lambda>resp. sendNotification initializedNotif Return))))"

text \<open>The calls of a display method, one after the other.\<close>

definition prints :: "string list \<Rightarrow> 'r prog \<Rightarrow> 'r prog" where
  "prints ss p = foldr Print ss p"

definition hoverResult :: "RawMessage \<Rightarrow> error option prog" where
  "hoverResult resp =
     (case unmarshal_hover resp of
        Inl e \<Rightarrow> Return (Some (Errorf ''failed to parse hover response'' e))
      | Inr contents \<Rightarrow> (case displayHoverInfo contents of (ss, err) \<Rightarrow> prints ss (Return err)))"

definition Hover :: "string \<Rightarrow> goint \<Rightarrow> goint \<Rightarrow> error option prog" where
  "Hover filePath line col =
     Ask (ReadFile filePath) (\<lambda>a.
       case a of
         Out content \<Rightarrow>
           sendNotification (didOpenNotif filePath content) (\<lambda>err.
             case err of
               Some e \<Rightarrow> Return (Some e)
             | None \<Rightarrow>
                 GetNextID (\<lambda>id0.
                   RegisterResponse id0 (\<lambda>respChan.
                     sendRequest (hoverReq filePath line col id0) (\<lambda>err.
                       case err of
                         Some e \<Rightarrow> Return (Some (Errorf ''failed to send hover request'' e))
                       | None \<Rightarrow> Recv respChan hoverResult))))
       | _ \<Rightarrow> Return (Some (Errorf ''failed to read file'' ReadFileError)))"

definition definitionResult :: "RawMessage \<Rightarrow> error option prog" where
  "definitionResult resp =
     (case unmarshal_locations resp of
        Inl e \<Rightarrow> Return (Some (Errorf ''failed to parse definition response'' e))
      | Inr locations \<Rightarrow>
          (case displayLocations locations of (ss, err) \<Rightarrow> prints ss (Return err)))"

definition Definition :: "string \<Rightarrow> goint \<Rightarrow> goint \<Rightarrow> error option prog" where
  "Definition filePath line col =
     Ask (ReadFile filePath) (\<lambda>a.
       case a of
         Out content \<Rightarrow>
           sendNotification (didOpenNotif filePath content) (\<lambda>err.
             GetNextID (\<lambda>id0.
               RegisterResponse id0 (\<lambda>respChan.
                 sendRequest (defReq filePath line col id0) (\<lambda>err.
                   case err of
                     Some e \<Rightarrow> Return (Some (Errorf ''failed to send definition request'' e))
                   | None \<Rightarrow> Recv respChan definitionResult))))
       | _ \<Rightarrow> Return (Some (Errorf ''failed to read file'' ReadFileError)))"

definition referencesResult :: "RawMessage \<Rightarrow> error option prog" where
  "referencesResult resp =
     (case unmarshal_locations resp of
        Inl e \<Rightarrow> Return (Some (Errorf ''failed to parse references response'' e))
      | Inr locations \<Rightarrow>
          (case displayLocations locations of (ss, err) \<Rightarrow> prints ss (Return err)))"

definition References :: "string \<Rightarrow> goint \<Rightarrow> goint \<Rightarrow> error option prog" where
  "References filePath line col =
     Ask (ReadFile filePath) (\<lambda>a.
       case a of
         Out content \<Rightarrow>
           sendNotification (didOpenNotif filePath content) (\<lambda>err.
             GetNextID (\<lambda>id0.
               RegisterResponse id0 (\<lambda>respChan.
                 sendRequest (refsReq filePath line col id0) (\<lambda>err.
                   case err of
                     Some e \<Rightarrow> Return (Some (Errorf ''failed to send references request'' e))
                   | None \<Rightarrow> Recv respChan referencesResult))))
       | _ \<Rightarrow> Return (Some (Errorf ''failed to read file'' ReadFileError)))"

subsection \<open>The command line\<close>

definition printUsage :: "'r prog \<Rightarrow> 'r prog" where
  "printUsage p =
     Print (Println ''Usage: mvp-lsp-client <command> <file> [args...]'')
    (Print (Println [])
    (Print (Println ''Commands:'')
    (Print (Println ''  hover <file> <line> <column>      Get type information at position'')
    (Print (Println ''  definition <file> <line> <column> Find definition of symbol'')
    (Print (Println ''  references <file> <line> <column> Find all references to symbol'')
    (Print (Println [])
    (Print (Println ''Line and column numbers are 1-indexed (matching editor display)'')
     p)))))))"

definition parsePosition :: "string \<Rightarrow> string \<Rightarrow> error + goint \<times> goint" where
  "parsePosition lineStr colStr =
     (case Atoi lineStr of (line, ok) \<Rightarrow>
        if \<not> ok then Inl (Message (''invalid line number: '' @ lineStr))
        else case Atoi colStr of (col, ok') \<Rightarrow>
          if \<not> ok' then Inl (Message (''invalid column number: '' @ colStr))
          else if sint line < 1 \<or> sint col < 1
          then Inl (Message ''line and column must be >= 1'')
          else Inr (line, col))"

text \<open>
  \<^verbatim>\<open>findGitRoot\<close> with \<^verbatim>\<open>isDir\<close>; \<^verbatim>\<open>filepath.Ext\<close> and \<^verbatim>\<open>filepath.Dir\<close> are modelled
  for a cleaned path with slashes, which is what \<^verbatim>\<open>filepath.Abs\<close> returns.
\<close>

definition Ext :: "string \<Rightarrow> string" where
  "Ext path =
     (let element = takeWhile (\<lambda>c. c \<noteq> CHR ''/'') (rev path)
      in if CHR ''.'' \<in> set element
         then CHR ''.'' # rev (takeWhile (\<lambda>c. c \<noteq> CHR ''.'') element)
         else [])"

definition Dir :: "string \<Rightarrow> string" where
  "Dir path =
     (let d = rev (dropWhile (\<lambda>c. c \<noteq> CHR ''/'') (rev path))
      in if d = [] then ''.'' else if d = ''/'' then ''/'' else butlast d)"

definition isDir :: "string \<Rightarrow> bool" where
  "isDir path = (Ext path = [])"

definition findGitRoot :: "string \<Rightarrow> (string \<Rightarrow> 'r prog) \<Rightarrow> 'r prog" where
  "findGitRoot path k =
     (let dir = (if \<not> isDir path then Dir path else path)
      in Ask (GitRevParse dir) (\<lambda>a.
           case a of
             Out output \<Rightarrow> k (TrimSpace output)
           | _ \<Rightarrow> k dir))"

text \<open>
  \<^verbatim>\<open>main\<close>, from \<^verbatim>\<open>os.Args\<close> to the exit code. \<^verbatim>\<open>os.Exit(1)\<close> ends the process at once,
  without the deferred \<^verbatim>\<open>client.Close()\<close>; that call runs when \<^verbatim>\<open>main\<close> returns, and
  the exit code is then 0.
\<close>

definition query_usage :: "string \<Rightarrow> string \<Rightarrow> string" where
  "query_usage arg0 name = ''Usage: '' @ arg0 @ '' '' @ name @ '' <file> <line> <column>''"

definition finish :: "error option \<Rightarrow> string \<Rightarrow> int prog" where
  "finish err what =
     (case err of
        Some e \<Rightarrow> PrintErr what (Some e) (Return 1)
      | None \<Rightarrow> bind Close (\<lambda>err. Return 0))"

definition command :: "string list \<Rightarrow> string \<Rightarrow> int prog" where
  "command args absPath =
     (let cmd = args ! 1
      in if cmd = ''hover'' \<or> cmd = ''type''
         then (if length args < 5 then PrintErr (query_usage (args ! 0) ''hover'') None (Return 1)
               else case parsePosition (args ! 3) (args ! 4) of
                      Inl e \<Rightarrow> PrintErr ''Error parsing position: '' (Some e) (Return 1)
                    | Inr (line, col) \<Rightarrow>
                        bind (Hover absPath line col)
                          (\<lambda>err. finish err ''Error getting hover info: ''))
         else if cmd = ''definition'' \<or> cmd = ''def''
         then (if length args < 5
               then PrintErr (query_usage (args ! 0) ''definition'') None (Return 1)
               else case parsePosition (args ! 3) (args ! 4) of
                      Inl e \<Rightarrow> PrintErr ''Error parsing position: '' (Some e) (Return 1)
                    | Inr (line, col) \<Rightarrow>
                        bind (Definition absPath line col)
                          (\<lambda>err. finish err ''Error getting definition: ''))
         else if cmd = ''references'' \<or> cmd = ''refs''
         then (if length args < 5
               then PrintErr (query_usage (args ! 0) ''references'') None (Return 1)
               else case parsePosition (args ! 3) (args ! 4) of
                      Inl e \<Rightarrow> PrintErr ''Error parsing position: '' (Some e) (Return 1)
                    | Inr (line, col) \<Rightarrow>
                        bind (References absPath line col)
                          (\<lambda>err. finish err ''Error getting references: ''))
         else PrintErr (''Unknown command: '' @ cmd) None (printUsage (Return 1)))"

definition main :: "string list \<Rightarrow> int prog" where
  "main args =
     (if length args < 3 then printUsage (Return 1)
      else Ask (Abs (args ! 2)) (\<lambda>a.
        case a of
          Out absPath \<Rightarrow>
            Ask (Stat absPath) (\<lambda>a.
              if a = Fail
              then PrintErr (''Error: file not found: '' @ absPath) None (Return 1)
              else findGitRoot absPath (\<lambda>workspaceRoot.
                NewLSPClient (\<lambda>err.
                  case err of
                    Some e \<Rightarrow> PrintErr ''Error creating LSP client: '' (Some e) (Return 1)
                  | None \<Rightarrow>
                      bind (Initialize workspaceRoot) (\<lambda>err.
                        case err of
                          Some e \<Rightarrow>
                            PrintErr ''Error initializing LSP server: '' (Some e) (Return 1)
                        | None \<Rightarrow> command args absPath))))
        | _ \<Rightarrow> PrintErr ''Error resolving file path: '' (Some AbsError) (Return 1)))"

subsection \<open>The actions of the methods\<close>

text \<open>
  The actions of \<^verbatim>\<open>Close\<close> when every call returns: the id taken, the \<open>shutdown\<close>
  request and the \<open>exit\<close> notification written (with the results of the writes),
  \<^verbatim>\<open>done\<close> closed, the pipe closed, the wait for the server (with its result).
\<close>

definition Close_actions ::
    "goint \<Rightarrow> error option \<Rightarrow> error option \<Rightarrow> error option \<Rightarrow> action list" where
  "Close_actions id0 e1 e2 e3 =
     [GotID id0,
      Written (framed (Marshal (shutdownReq id0))) e1,
      Written (framed (Marshal exitNotif)) e2,
      DoneClosed, StdinClosed, Waited e3]"

text \<open>
  The actions of \<^verbatim>\<open>Initialize\<close> when the request is written: the id taken, the channel
  registered for it, the \<open>initialize\<close> request written, the response received from that
  channel, the \<open>initialized\<close> notification written (with the result of the write).
\<close>

definition Initialize_actions ::
    "string \<Rightarrow> goint \<Rightarrow> nat \<Rightarrow> RawMessage \<Rightarrow> error option \<Rightarrow> action list" where
  "Initialize_actions workspaceRoot id0 ch resp e =
     [GotID id0,
      Registered id0 ch,
      Written (framed (Marshal (initReq workspaceRoot id0))) None,
      Received ch resp,
      Written (framed (Marshal initializedNotif)) e]"

fun is_Received :: "action \<Rightarrow> bool" where
  "is_Received (Received ch resp) = True"
| "is_Received a = False"

text \<open>
  A client as \<^verbatim>\<open>NewLSPClient\<close> leaves it, with the memory for a frame and the bytes the
  server will write.
\<close>

definition started :: "nat \<Rightarrow> string \<Rightarrow> LSPClient" where
  "started mem output = snd (run [Caller Ok] (Spawn (Return ()), process mem output))"

subsection \<open>Example sessions\<close>

text \<open>
  The events of a complete session: the answers to \<^verbatim>\<open>main\<close> up to the start of the
  server, \<^verbatim>\<open>Initialize\<close> with the reader reading the first frame, the query (the file
  holds \<open>package a\<close>) with the reader reading the second frame, and \<^verbatim>\<open>Close\<close>.
\<close>

definition session_events :: "event list" where
  "session_events =
     [Caller (Out ''/w/a.go''), Caller Ok, Caller Fail, Caller Ok, Caller Ok, Caller Ok,
      Caller Ok, Caller Ok,
      Caller Ok, Caller Ok, Caller Ok, Reader, Reader, Caller Ok, Caller Ok,
      Caller (Out (''package a'' @ [LF])), Caller Ok, Caller Ok, Caller Ok, Caller Ok,
      Reader, Reader, Caller Ok, Caller Ok,
      Caller Ok, Caller Ok, Caller Ok, Caller Ok, Caller Ok, Caller Ok]"

text \<open>
  What the server writes: the response to \<open>initialize\<close>, and after it a response to
  the query (id 2) that is a \<open>null\<close> result, an error without a result, or hover
  contents that are a number.
\<close>

definition initialize_response :: string where
  \<open>initialize_response = ''Content-Length: 53'' @ [CR, LF, CR, LF] @
     ''{"jsonrpc":"2.0","id":1,"result":{"capabilities":{}}}''\<close>

definition null_result :: string where
  \<open>null_result = initialize_response @ ''Content-Length: 38'' @ [CR, LF, CR, LF] @
     ''{"jsonrpc":"2.0","id":2,"result":null}''\<close>

definition error_response :: string where
  \<open>error_response = initialize_response @ ''Content-Length: 65'' @ [CR, LF, CR, LF] @
     ''{"jsonrpc":"2.0","id":2,"error":{"code":-32603,"message":"boom"}}''\<close>

definition number_contents :: string where
  \<open>number_contents = initialize_response @ ''Content-Length: 49'' @ [CR, LF, CR, LF] @
     ''{"jsonrpc":"2.0","id":2,"result":{"contents":42}}''\<close>




text \<open>
  Headers without a \<open>Content-Length:\<close> line, and headers whose length is not a number.
\<close>

definition headers_without_length :: string where
  "headers_without_length =
     ''X-Header: 1'' @ [CR, LF, CR, LF] @ ''Content-Length: abc'' @ [CR, LF, CR, LF]"

subsection \<open>The ids of a session\<close>


text \<open>The ids \<open>start\<close>, \<open>start + 1\<close>, ... (\<open>n\<close> of them), in the arithmetic of \<^verbatim>\<open>int\<close>.\<close>

definition from_id :: "goint \<Rightarrow> nat \<Rightarrow> goint list" where
  "from_id start n = map (\<lambda>k. start + of_nat k) [0..<n]"







subsection \<open>The id generator under concurrent calls\<close>

text \<open>
  \<^verbatim>\<open>getNextID\<close> called by any number of goroutines at once, one step of one call at a
  time. A call is before \<^verbatim>\<open>c.mu.Lock()\<close>, after it, after \<^verbatim>\<open>id := c.nextID\<close>, after
  the read of \<^verbatim>\<open>c.nextID\<close> in \<^verbatim>\<open>c.nextID++\<close>, after the write of \<^verbatim>\<open>c.nextID++\<close>, or
  it has returned its id and the deferred \<^verbatim>\<open>c.mu.Unlock()\<close> has run.
\<close>

datatype call =
    AtLock | AfterLock | AfterLoad goint | AfterRead goint goint | AfterWrite goint
  | AfterReturn goint






fun pending :: "call \<Rightarrow> bool" where
  "pending (AfterLoad id0) = True"
| "pending (AfterRead id0 n) = True"
| "pending k = False"



section \<open>Properties\<close>

subsection \<open>Prefixes and suffixes\<close>

lemma HasPrefix_append: "HasPrefix (p @ s) p"
  by (induction p) auto

lemma HasPrefix_iff: "HasPrefix s p \<longleftrightarrow> (\<exists>r. s = p @ r)"
  by (induction s p rule: HasPrefix.induct) auto

lemma TrimPrefix_append: "TrimPrefix (p @ s) p = s"
  by (simp add: TrimPrefix_def HasPrefix_append)

lemma TrimSuffix_append: "TrimSuffix (s @ p) p = s"
  by (simp add: TrimSuffix_def HasSuffix_def HasPrefix_append)

lemma no_fence_append:
  assumes "\<not> HasPrefix b ''```''" and "c = [] \<or> c = LF # ''```''"
  shows "\<not> HasPrefix (b @ c) (''```'' @ r)"
proof (cases b)
  case Nil
  with assms(2) show ?thesis by (auto simp: LF_def)
next
  case b1: (Cons x1 t1)
  show ?thesis
  proof (cases t1)
    case Nil
    with b1 assms(2) show ?thesis by (auto simp: LF_def)
  next
    case b2: (Cons x2 t2)
    show ?thesis
    proof (cases t2)
      case Nil
      with b1 b2 assms(2) show ?thesis by (auto simp: LF_def)
    next
      case (Cons x3 t3)
      with b1 b2 assms(1) show ?thesis by auto
    qed
  qed
qed

lemma strip_fences:
  assumes o: "opener = [] \<or> opener = ''```go'' @ [LF] \<or> opener = ''```'' @ [LF]"
      and c: "closer = [] \<or> closer = LF # ''```''"
      and b1: "\<not> HasPrefix body ''```''"
      and b2: "\<not> HasSuffix body (LF # ''```'')"
  shows "TrimSuffix (TrimPrefix (TrimPrefix (opener @ body @ closer) (''```go'' @ [LF])) (''```'' @ [LF])) (LF # ''```'') = body"
proof -
  have nf: "\<And>r. \<not> HasPrefix (body @ closer) (''```'' @ r)"
    using no_fence_append [OF b1 c] .
  have nf1: "\<not> HasPrefix (body @ closer) (''```go'' @ [LF])"
    using nf [of "''go'' @ [LF]"] by simp
  have nf2: "\<not> HasPrefix (body @ closer) (''```'' @ [LF])"
    using nf [of "[LF]"] .
  have p: "TrimPrefix (TrimPrefix (opener @ body @ closer) (''```go'' @ [LF])) (''```'' @ [LF]) = body @ closer"
    using o
  proof (elim disjE)
    assume "opener = []"
    then show ?thesis using nf1 nf2 by (simp add: TrimPrefix_def)
  next
    assume "opener = ''```go'' @ [LF]"
    then show ?thesis using nf2 TrimPrefix_append [of "''```go'' @ [LF]" "body @ closer"]
      by (simp add: TrimPrefix_def)
  next
    assume op: "opener = ''```'' @ [LF]"
    have a: "\<not> HasPrefix (opener @ body @ closer) (''```go'' @ [LF])"
      by (simp add: op LF_def)
    have "TrimPrefix (opener @ body @ closer) (''```go'' @ [LF]) = opener @ body @ closer"
      using a by (simp only: TrimPrefix_def if_False)
    moreover have "TrimPrefix (opener @ body @ closer) (''```'' @ [LF]) = body @ closer"
      unfolding op by (rule TrimPrefix_append)
    ultimately show ?thesis by (simp only:)
  qed
  have s: "TrimSuffix (body @ closer) (LF # ''```'') = body"
    using c
  proof
    assume "closer = []"
    then show ?thesis using b2 by (simp add: TrimSuffix_def)
  next
    assume "closer = LF # ''```''"
    then show ?thesis using TrimSuffix_append [of body "LF # ''```''"] by simp
  qed
  show ?thesis by (simp only: p s)
qed

subsection \<open>Hover contents\<close>

text \<open>
  C4, as the code has it: the contents is an object whose \<open>value\<close> is a string made of
  an opening fence, a body and a closing fence, each fence optional. The opening fences
  the code knows are the untagged one and the one tagged \<open>go\<close>; the body is what remains
  when it neither begins nor ends with a fence of its own. Then the body is what is
  displayed, followed by the newline of \<^verbatim>\<open>Println\<close>, and the method returns no error.
\<close>

theorem displayHoverInfo_strips_fences:
  assumes "map_index m ''value'' = Some (JString (opener @ body @ closer))"
      and "opener = [] \<or> opener = ''```go'' @ [LF] \<or> opener = ''```'' @ [LF]"
      and "closer = [] \<or> closer = LF # ''```''"
      and "\<not> HasPrefix body ''```''"
      and "\<not> HasSuffix body (LF # ''```'')"
  shows "displayHoverInfo (JObject m) = ([Println body], None)"
  using assms(1) strip_fences [OF assms(2-5)] by simp

text \<open>
  C4, witness: the value of the spec's example, a body \<open>foo\<close> between a fence tagged
  \<open>go\<close> and a closing fence, in a markup object; \<open>foo\<close> and a newline are displayed.
\<close>

theorem displayHoverInfo_strips_fences_witness:
  "displayHoverInfo
     (JObject [(''kind'', JString ''markdown''),
               (''value'', JString (''```go'' @ [LF] @ ''foo'' @ [LF] @ ''```''))])
   = ([''foo'' @ [LF]], None)"
proof -
  have "displayHoverInfo
     (JObject [(''kind'', JString ''markdown''),
               (''value'', JString ((''```go'' @ [LF]) @ ''foo'' @ (LF # ''```'')))])
   = ([Println ''foo''], None)"
    by (rule displayHoverInfo_strips_fences
          [where opener = "''```go'' @ [LF]" and body = "''foo''" and closer = "LF # ''```''"])
       (simp_all add: map_index_def HasSuffix_def LF_def)
  then show ?thesis by (simp add: Println_def)
qed

text \<open>
  C4, counterexample: a fence tagged with another language is not stripped. The value
  is \<open>foo\<close> between a fence tagged \<open>python\<close> and a closing fence; only the closing
  fence is removed, and the opening fence is displayed with the body.
\<close>

theorem displayHoverInfo_other_tag_kept:
  "displayHoverInfo
     (JObject [(''value'', JString (''```python'' @ [LF] @ ''foo'' @ [LF] @ ''```''))])
   = ([''```python'' @ [LF] @ ''foo'' @ [LF]], None)"
  by (simp add: map_index_def TrimPrefix_def TrimSuffix_def HasSuffix_def Println_def LF_def)

subsection \<open>Runs and traces\<close>

text \<open>
  Whatever the events of a run, the calling goroutine's part of the history is a trace
  of its program, and what is left of the program is where that trace ends.
\<close>

lemma own_append: "own (xs @ ys) = own xs @ own ys"
  by (induction xs rule: own.induct) auto

lemma trace_trans: "trace p as q \<Longrightarrow> trace q bs r \<Longrightarrow> trace p (as @ bs) r"
  by (induction rule: trace.induct) (auto intro: trace.intros)

lemma dispatch_history:
  "dispatch msg c = Some c' \<Longrightarrow> \<exists>new. history c' = history c @ new \<and> own new = []"
  by (auto simp: dispatch_def log_def split: option.splits if_splits)

lemma reader_step_history:
  "reader_step c = Some c' \<Longrightarrow> \<exists>new. history c' = history c @ new \<and> own new = []"
  by (auto simp: reader_step_def split: reader_pc.splits frame.splits sum.splits option.splits
      dest!: dispatch_history)

lemma caller_step_trace:
  "caller_step a p c = Some (p', c') \<Longrightarrow> \<exists>new. history c' = history c @ new \<and> trace p (own new) p'"
proof (cases p)
  case (Return r)
  assume "caller_step a p c = Some (p', c')"
  with Return show ?thesis by simp
qed (auto simp: getNextID_def registerResponse_def log_def Let_def split: if_splits list.splits
     intro!: trace.intros intro: trace.intros)

lemma step_trace:
  assumes "step (p, c) e = (p', c')"
  shows "\<exists>new. history c' = history c @ new \<and> trace p (own new) p'"
proof -
  have stay: "\<exists>new. history c = history c @ new \<and> trace p (own new) p"
    by (rule exI [of _ "[]"]) (simp add: trace_Nil)
  show ?thesis
  proof (cases "panicked c")
    case True
    with assms stay show ?thesis by (simp add: step_def)
  next
    case False
    show ?thesis
    proof (cases e)
      case Reader
      show ?thesis
      proof (cases "reader_step c")
        case None
        with assms False Reader stay show ?thesis by (simp add: step_def)
      next
        case (Some c1)
        with assms False Reader have "p' = p" "c' = c1" by (simp_all add: step_def)
        with reader_step_history [OF Some] show ?thesis by (auto intro: trace_Nil)
      qed
    next
      case (Caller a)
      show ?thesis
      proof (cases "caller_step a p c")
        case None
        with assms False Caller stay show ?thesis by (simp add: step_def)
      next
        case (Some s1)
        with assms False Caller have "caller_step a p c = Some (p', c')" by (simp add: step_def)
        then show ?thesis by (rule caller_step_trace)
      qed
    qed
  qed
qed

lemma run_trace:
  "run es (p, c) = (p', c') \<Longrightarrow> \<exists>new. history c' = history c @ new \<and> trace p (own new) p'"
proof (induction es arbitrary: p c)
  case Nil
  then show ?case by (auto simp: run_def intro: trace.intros)
next
  case (Cons e es)
  obtain p1 c1 where s1: "step (p, c) e = (p1, c1)" by (cases "step (p, c) e")
  with Cons.prems have "run es (p1, c1) = (p', c')" by (simp add: run_def)
  from Cons.IH [OF this] obtain n2 where n2: "history c' = history c1 @ n2" "trace p1 (own n2) p'"
    by blast
  from step_trace [OF s1] obtain n1 where n1: "history c1 = history c @ n1" "trace p (own n1) p1"
    by blast
  from n1 n2 have "history c' = history c @ (n1 @ n2)" by simp
  moreover from n1 n2 have "trace p (own (n1 @ n2)) p'"
    by (simp add: own_append trace_trans)
  ultimately show ?case by blast
qed


inductive_simps trace_Return: "trace (Return r) as p'"
inductive_simps trace_GetNextID_iff: "trace (GetNextID k) as p'"
inductive_simps trace_RegisterResponse_iff: "trace (RegisterResponse id0 k) as p'"
inductive_simps trace_StdinWrite_iff: "trace (StdinWrite data k) as p'"
inductive_simps trace_Recv_iff: "trace (Recv ch k) as p'"
inductive_simps trace_Print_iff: "trace (Print s p) as p'"
inductive_simps trace_PrintErr_iff: "trace (PrintErr s e p) as p'"
inductive_simps trace_Ask_iff: "trace (Ask q k) as p'"
inductive_simps trace_Spawn_iff: "trace (Spawn p) as p'"
inductive_simps trace_CloseDone_iff: "trace (CloseDone p) as p'"
inductive_simps trace_StdinClose_iff: "trace (StdinClose p) as p'"
inductive_simps trace_CmdWait_iff: "trace (CmdWait k) as p'"

lemmas trace_iffs = trace_Return trace_GetNextID_iff trace_RegisterResponse_iff
  trace_StdinWrite_iff trace_Recv_iff trace_Print_iff trace_PrintErr_iff trace_Ask_iff
  trace_Spawn_iff trace_CloseDone_iff trace_StdinClose_iff trace_CmdWait_iff

lemma Close_trace:
  assumes "trace Close as p'"
  shows "\<exists>id0 e1 e2 e3. is_prefix as (Close_actions id0 e1 e2 e3) \<and>
           (\<forall>r. p' = Return r \<longrightarrow> as = Close_actions id0 e1 e2 e3 \<and> r = e3)"
  using assms
  unfolding Close_def sendRequest_def sendNotification_def sendMessage_def Close_actions_def
  by (auto simp: trace_iffs)


lemma since_append: "history c' = history c @ new \<Longrightarrow> since c c' = new"
  by (simp add: since_def)

lemma run_since_trace: "trace p (own (since c (snd (run es (p, c))))) (fst (run es (p, c)))"
proof -
  obtain p' c' where r: "run es (p, c) = (p', c')" by (cases "run es (p, c)")
  from run_trace [OF r] obtain new where "history c' = history c @ new" "trace p (own new) p'"
    by blast
  with r show ?thesis by (simp add: since_append)
qed

subsection \<open>Closing the session\<close>

text \<open>
  C6: in every run of \<^verbatim>\<open>Close\<close>, from any client and with the reader moving at any
  time, what the calling goroutine has done so far is a prefix of: take an id, write the
  \<open>shutdown\<close> request, write the \<open>exit\<close> notification, close \<^verbatim>\<open>done\<close>, close the
  pipe to the server, wait for the server. It receives from no channel, so it never
  waits for the answer to \<open>shutdown\<close>; the results of the two writes are dropped. When
  \<^verbatim>\<open>Close\<close> returns, all six actions have happened and it returns the result of the
  wait.
\<close>

theorem Close_order:
  "\<exists>id0 e1 e2 e3.
     is_prefix (own (since c (snd (run es (Close, c))))) (Close_actions id0 e1 e2 e3) \<and>
     (\<forall>r. fst (run es (Close, c)) = Return r \<longrightarrow>
        own (since c (snd (run es (Close, c)))) = Close_actions id0 e1 e2 e3 \<and> r = e3)"
  using Close_trace [OF run_since_trace [of Close c es]] .

text \<open>
  C6, witness: a run of \<^verbatim>\<open>Close\<close> on a client just started, in which the reader moves
  twice and the write of \<open>exit\<close> fails. \<^verbatim>\<open>Close\<close> returns \<^verbatim>\<open>nil\<close> after the six
  actions, with the id 1.
\<close>

lemma started_simp:
  "started mem output = (process mem output)\<lparr>nextID := 1, responses := Map.empty, doneClosed := False, reader := Select\<rparr>"
  by (simp add: started_def run_def step_def process_def)

theorem Close_order_witness:
  "fst (run [Caller Ok, Reader, Caller Ok, Caller Fail, Caller Ok, Caller Ok, Reader, Caller Ok]
          (Close, started 4096 [])) = Return None \<and>
   own (since (started 4096 [])
          (snd (run [Caller Ok, Reader, Caller Ok, Caller Fail, Caller Ok, Caller Ok, Reader, Caller Ok]
                  (Close, started 4096 [])))) = Close_actions 1 None (Some WriteError) None"
  using Close_order [of "started 4096 []" "[Caller Ok, Reader, Caller Ok, Caller Fail, Caller Ok, Caller Ok, Reader, Caller Ok]"]
  by (simp add: started_simp run_def step_def process_def Close_def sendRequest_def
      sendNotification_def sendMessage_def getNextID_def log_def since_def locked_def
      reader_step_def Close_actions_def readFrame_def readHeaders.simps)

subsection \<open>Evaluating a run\<close>

text \<open>The definitions a concrete run is evaluated with.\<close>

lemmas exec =
  run_def step_def caller_step.simps reader_step_def dispatch_def getNextID_def
  registerResponse_def log_def locked_def process_def started_def since_def
  readFrame_def readHeaders.simps TrimSpace_def TrimLeft.simps space_width_def spaces_def
  SplitN2_def Atoi_def ParseUint.simps ParseInt_def is_digit_def decimal_def digit_val_def MaxInt_def MinInt_def
  maxAlloc_def CR_def LF_def
  json_value_def start_step_def value_step_def scalar_def is_ws_def is_numchar_def number_ok_def
  frac_ok_def exp_ok_def unescape_def flush_def rune_size_def
  unmarshal_message_def message_member_def field_def
  unmarshal_hover_def hover_member_def unmarshal_locations_def location_element_def
  location_member_def range_member_def start_member_def int_field_def
  displayLocations_def printLocation_def Println_def hoverResult_def definitionResult_def
  referencesResult_def prints_def float64_ok_def
  main_def command_def finish_def NewLSPClient_def findGitRoot_def isDir_def Ext_def Dir_def
  parsePosition_def Initialize_def Hover_def Definition_def References_def Close_def
  sendRequest_def sendNotification_def sendMessage_def Let_def


subsection \<open>The handshake\<close>

lemma Initialize_trace:
  assumes "trace (Initialize root) as p'"
  shows "\<exists>id0 ch.
           (\<exists>resp e. is_prefix as (Initialize_actions root id0 ch resp e) \<and>
              (\<forall>r. p' = Return r \<longrightarrow> as = Initialize_actions root id0 ch resp e \<and> r = e)) \<or>
           (\<exists>e. as = [GotID id0, Registered id0 ch,
                       Written (framed (Marshal (initReq root id0))) (Some e)] \<and>
                 p' = Return (Some (Errorf ''failed to send initialize request'' e)))"
  using assms
  unfolding Initialize_def sendRequest_def sendNotification_def sendMessage_def Initialize_actions_def
  by (auto simp: trace_iffs split: option.splits)

text \<open>
  C5: in every run of \<^verbatim>\<open>Initialize\<close>, from any client and with the reader moving at any
  time, what the calling goroutine has done so far is a prefix of: take an id, register
  a channel for that id, write the \<open>initialize\<close> request with that id, receive the
  response from that channel, write the \<open>initialized\<close> notification. So the
  notification is written only after the receive on the channel registered for the
  request has returned, and \<^verbatim>\<open>Initialize\<close> then returns the result of that last write.
  The one other course is that the write of the request fails: \<^verbatim>\<open>Initialize\<close> returns
  that error, and neither waits nor notifies.
\<close>

theorem Initialize_order:
  "\<exists>id0 ch.
     (\<exists>resp e.
        is_prefix (own (since c (snd (run es (Initialize root, c)))))
          (Initialize_actions root id0 ch resp e) \<and>
        (\<forall>r. fst (run es (Initialize root, c)) = Return r \<longrightarrow>
           own (since c (snd (run es (Initialize root, c)))) = Initialize_actions root id0 ch resp e \<and>
           r = e)) \<or>
     (\<exists>e. own (since c (snd (run es (Initialize root, c)))) =
             [GotID id0, Registered id0 ch, Written (framed (Marshal (initReq root id0))) (Some e)] \<and>
           fst (run es (Initialize root, c)) =
             Return (Some (Errorf ''failed to send initialize request'' e)))"
  using Initialize_trace [OF run_since_trace [of "Initialize root" c es]] .


text \<open>
  C5, witness: \<^verbatim>\<open>Initialize\<close> on a client just started, whose server answers the
  request. The reader delivers the answer after the request is written; the calling
  goroutine receives it and writes the notification.
\<close>

theorem Initialize_order_witness:
  "fst (run [Caller Ok, Caller Ok, Caller Ok, Reader, Reader, Caller Ok, Caller Ok]
          (Initialize ''/w'', started 4096 initialize_response)) = Return None \<and>
   own (since (started 4096 initialize_response)
          (snd (run [Caller Ok, Caller Ok, Caller Ok, Reader, Reader, Caller Ok, Caller Ok]
                  (Initialize ''/w'', started 4096 initialize_response)))) =
     Initialize_actions ''/w'' 1 0 (Some (JObject [(''capabilities'', JObject [])])) None"
  using Initialize_order [of "started 4096 initialize_response"
      "[Caller Ok, Caller Ok, Caller Ok, Reader, Reader, Caller Ok, Caller Ok]" "''/w''"]
  by (simp add: exec started_simp initialize_response_def Initialize_actions_def)

subsection \<open>Programs in sequence\<close>

lemma filter_Received_own: "filter is_Received (own h) = filter is_Received h"
  by (induction h rule: own.induct) auto

lemma printed_own: "printed (own h) = printed h"
  by (induction h rule: own.induct) auto

lemma diagnostics_own: "diagnostics (own h) = diagnostics h"
  by (induction h rule: own.induct) auto

lemma diagnostics_append: "diagnostics (xs @ ys) = diagnostics xs @ diagnostics ys"
  by (induction xs rule: diagnostics.induct) auto

lemma printed_append: "printed (xs @ ys) = printed xs @ printed ys"
  by (induction xs rule: printed.induct) auto

lemma trace_bind_Return:
  "trace (bind p k) as (Return r) \<longleftrightarrow>
     (\<exists>x as1 as2. as = as1 @ as2 \<and> trace p as1 (Return x) \<and> trace (k x) as2 (Return r))"
proof (induction p arbitrary: as)
  case (Return x)
  then show ?case by (auto simp: trace_iffs)
next
  case (GetNextID f)
  then show ?case by (simp add: trace_iffs) (metis append_Cons)
next
  case (RegisterResponse i f)
  then show ?case by (simp add: trace_iffs) (metis append_Cons)
next
  case (StdinWrite d f)
  then show ?case by (simp add: trace_iffs) (metis append_Cons)
next
  case (Recv ch f)
  then show ?case by (simp add: trace_iffs) (metis append_Cons)
next
  case (Print s p)
  then show ?case by (simp add: trace_iffs) (metis append_Cons)
next
  case (PrintErr s e p)
  then show ?case by (simp add: trace_iffs) (metis append_Cons)
next
  case (Ask q f)
  then show ?case by (simp add: trace_iffs) (metis append_Cons)
next
  case (Spawn p)
  then show ?case by (simp add: trace_iffs)
next
  case (CloseDone p)
  then show ?case by (simp add: trace_iffs) (metis append_Cons)
next
  case (StdinClose p)
  then show ?case by (simp add: trace_iffs) (metis append_Cons)
next
  case (CmdWait f)
  then show ?case by (simp add: trace_iffs) (metis append_Cons)
qed


text \<open>A case distinction in a program, as the cases of its traces.\<close>

lemma trace_case_answer:
  "trace (case a of Ok \<Rightarrow> p1 | Fail \<Rightarrow> p2 | Out s \<Rightarrow> p3 s) as r \<longleftrightarrow>
     (a = Ok \<and> trace p1 as r) \<or> (a = Fail \<and> trace p2 as r) \<or> (\<exists>s. a = Out s \<and> trace (p3 s) as r)"
  by (cases a) auto

lemma trace_case_option:
  "trace (case e of None \<Rightarrow> p1 | Some x \<Rightarrow> p2 x) as r \<longleftrightarrow>
     (e = None \<and> trace p1 as r) \<or> (\<exists>x. e = Some x \<and> trace (p2 x) as r)"
  by (cases e) auto

lemma trace_case_sum:
  "trace (case u of Inl x \<Rightarrow> p1 x | Inr y \<Rightarrow> p2 y) as r \<longleftrightarrow>
     (\<exists>x. u = Inl x \<and> trace (p1 x) as r) \<or> (\<exists>y. u = Inr y \<and> trace (p2 y) as r)"
  by (cases u) auto

lemma trace_if:
  "trace (if b then p1 else p2) as r \<longleftrightarrow> (b \<and> trace p1 as r) \<or> (\<not> b \<and> trace p2 as r)"
  by simp

lemmas trace_cases = trace_case_answer trace_case_option trace_case_sum trace_if

lemma trace_case_prod:
  "trace (case u of (x, y) \<Rightarrow> p x y) as r \<longleftrightarrow> (\<exists>x y. u = (x, y) \<and> trace (p x y) as r)"
  by (cases u) auto

subsection \<open>Queries that find nothing\<close>

lemma Initialize_returns:
  assumes "trace (Initialize root) as (Return x)"
  shows "printed as = [] \<and> diagnostics as = [] \<and>
         length (filter is_Received as) \<le> 1 \<and>
         (x = None \<longrightarrow> length (filter is_Received as) = 1)"
  using assms
  unfolding Initialize_def sendRequest_def sendNotification_def sendMessage_def
  by (auto simp: trace_iffs trace_cases)

lemma Close_returns:
  assumes "trace Close as (Return x)"
  shows "printed as = [] \<and> diagnostics as = [] \<and> filter is_Received as = []"
  using assms
  unfolding Close_def sendRequest_def sendNotification_def sendMessage_def
  by (auto simp: trace_iffs)

lemma finish_returns:
  assumes "trace (finish err what) as (Return code)"
  shows "printed as = [] \<and> filter is_Received as = [] \<and>
         (err = None \<longrightarrow> code = 0 \<and> diagnostics as = []) \<and> (err \<noteq> None \<longrightarrow> code = 1)"
  using assms
  unfolding finish_def
  by (auto simp: trace_iffs trace_cases trace_bind_Return printed_append diagnostics_append
      dest!: Close_returns)

lemma trace_prints_Return:
  "trace (prints ss p) as (Return x) \<longleftrightarrow>
     (\<exists>as'. as = map Printed ss @ as' \<and> trace p as' (Return x))"
  by (induction ss arbitrary: as) (auto simp: prints_def trace_iffs)

lemma Received_Printed: "filter is_Received (map Printed ss) = []"
  by (induction ss) auto

lemma diagnostics_Printed: "diagnostics (map Printed ss) = []"
  by (induction ss) auto

lemma printed_Printed: "printed (map Printed ss) = concat ss"
  by (induction ss) auto

lemma locationsResult_returns:
  assumes "trace (definitionResult resp) as (Return x) \<or> trace (referencesResult resp) as (Return x)"
  shows "filter is_Received as = [] \<and> diagnostics as = [] \<and>
         (resp = Some JNull \<or> resp = Some (JArray []) \<longrightarrow>
            as = [Printed (Println ''No locations found'')] \<and> x = None)"
  using assms
  unfolding definitionResult_def referencesResult_def
  by (auto simp: trace_iffs trace_cases trace_case_prod trace_prints_Return Received_Printed
      diagnostics_Printed unmarshal_locations_def displayLocations_def)

lemma Definition_shape:
  assumes "trace (Definition filePath line col) as (Return x)"
  shows "(filter is_Received as = [] \<and> x \<noteq> None) \<or>
         (\<exists>content e id0 ch resp post.
            as = [Asked (ReadFile filePath) (Out content),
                  Written (framed (Marshal (didOpenNotif filePath content))) e,
                  GotID id0, Registered id0 ch,
                  Written (framed (Marshal (defReq filePath line col id0))) None] @
                 Received ch resp # post \<and>
            trace (definitionResult resp) post (Return x))"
  using assms
  unfolding Definition_def sendRequest_def sendNotification_def sendMessage_def
  by (auto simp: trace_iffs trace_cases)

lemma Definition_returns:
  assumes "trace (Definition filePath line col) as (Return x)"
  shows "(filter is_Received as = [] \<and> x \<noteq> None) \<or>
         (\<exists>pre ch resp post.
            as = pre @ Received ch resp # post \<and> printed pre = [] \<and> diagnostics pre = [] \<and>
            filter is_Received pre = [] \<and> trace (definitionResult resp) post (Return x))"
  using Definition_shape [OF assms]
proof
  assume "filter is_Received as = [] \<and> x \<noteq> None"
  then show ?thesis by blast
next
  assume "\<exists>content e id0 ch resp post.
            as = [Asked (ReadFile filePath) (Out content),
                  Written (framed (Marshal (didOpenNotif filePath content))) e,
                  GotID id0, Registered id0 ch,
                  Written (framed (Marshal (defReq filePath line col id0))) None] @
                 Received ch resp # post \<and>
            trace (definitionResult resp) post (Return x)"
  then obtain pre ch resp post where "as = pre @ Received ch resp # post"
    "printed pre = []" "diagnostics pre = []" "filter is_Received pre = []"
    "trace (definitionResult resp) post (Return x)"
    by fastforce
  then show ?thesis by blast
qed

lemma References_shape:
  assumes "trace (References filePath line col) as (Return x)"
  shows "(filter is_Received as = [] \<and> x \<noteq> None) \<or>
         (\<exists>content e id0 ch resp post.
            as = [Asked (ReadFile filePath) (Out content),
                  Written (framed (Marshal (didOpenNotif filePath content))) e,
                  GotID id0, Registered id0 ch,
                  Written (framed (Marshal (refsReq filePath line col id0))) None] @
                 Received ch resp # post \<and>
            trace (referencesResult resp) post (Return x))"
  using assms
  unfolding References_def sendRequest_def sendNotification_def sendMessage_def
  by (auto simp: trace_iffs trace_cases)

lemma References_returns:
  assumes "trace (References filePath line col) as (Return x)"
  shows "(filter is_Received as = [] \<and> x \<noteq> None) \<or>
         (\<exists>pre ch resp post.
            as = pre @ Received ch resp # post \<and> printed pre = [] \<and> diagnostics pre = [] \<and>
            filter is_Received pre = [] \<and> trace (referencesResult resp) post (Return x))"
  using References_shape [OF assms]
proof
  assume "filter is_Received as = [] \<and> x \<noteq> None"
  then show ?thesis by blast
next
  assume "\<exists>content e id0 ch resp post.
            as = [Asked (ReadFile filePath) (Out content),
                  Written (framed (Marshal (didOpenNotif filePath content))) e,
                  GotID id0, Registered id0 ch,
                  Written (framed (Marshal (refsReq filePath line col id0))) None] @
                 Received ch resp # post \<and>
            trace (referencesResult resp) post (Return x)"
  then obtain pre ch resp post where "as = pre @ Received ch resp # post"
    "printed pre = []" "diagnostics pre = []" "filter is_Received pre = []"
    "trace (referencesResult resp) post (Return x)"
    by fastforce
  then show ?thesis by blast
qed


lemma filter_Received_single:
  assumes "filter is_Received (pre @ Received ch' resp' # post @ as2) = [Received ch resp]"
      and "filter is_Received pre = []" and "filter is_Received post = []"
  shows "ch' = ch \<and> resp' = resp"
  using assms by simp

lemma query_finish:
  assumes tr: "trace (bind q (\<lambda>err. finish err what)) as (Return code)"
      and q: "\<And>as1 x. trace q as1 (Return x) \<Longrightarrow>
                (filter is_Received as1 = [] \<and> x \<noteq> None) \<or>
                (\<exists>pre ch resp post.
                   as1 = pre @ Received ch resp # post \<and> printed pre = [] \<and> diagnostics pre = [] \<and>
                   filter is_Received pre = [] \<and>
                   (trace (definitionResult resp) post (Return x) \<or>
                    trace (referencesResult resp) post (Return x)))"
      and rcv: "filter is_Received as = [Received ch resp]"
      and empty: "resp = Some JNull \<or> resp = Some (JArray [])"
  shows "printed as = Println ''No locations found'' \<and> diagnostics as = [] \<and> code = 0"
proof -
  from tr obtain x as1 as2 where as: "as = as1 @ as2" and t1: "trace q as1 (Return x)"
    and t2: "trace (finish x what) as2 (Return code)"
    by (auto simp: trace_bind_Return)
  note f = finish_returns [OF t2]
  from q [OF t1] show ?thesis
  proof
    assume "filter is_Received as1 = [] \<and> x \<noteq> None"
    with f as rcv show ?thesis by simp
  next
    assume "\<exists>pre ch resp post.
              as1 = pre @ Received ch resp # post \<and> printed pre = [] \<and> diagnostics pre = [] \<and>
              filter is_Received pre = [] \<and>
              (trace (definitionResult resp) post (Return x) \<or>
               trace (referencesResult resp) post (Return x))"
    then obtain pre ch' resp' post where as1: "as1 = pre @ Received ch' resp' # post"
      and pre: "printed pre = []" "diagnostics pre = []" "filter is_Received pre = []"
      and res: "trace (definitionResult resp') post (Return x) \<or>
                trace (referencesResult resp') post (Return x)"
      by blast
    note l = locationsResult_returns [OF res]
    from rcv as as1 pre l f have "resp' = resp" by simp
    with l empty have post: "post = [Printed (Println ''No locations found'')]" and x: "x = None"
      by simp_all
    from f x have "code = 0" "printed as2 = []" "diagnostics as2 = []" by simp_all
    with as as1 pre post show ?thesis
      by (simp add: printed_append diagnostics_append)
  qed
qed

lemma command_locations:
  assumes tr: "trace (command args absPath) as (Return code)"
      and cmd: "args ! 1 = ''definition'' \<or> args ! 1 = ''def'' \<or>
                args ! 1 = ''references'' \<or> args ! 1 = ''refs''"
      and rcv: "filter is_Received as = [Received ch resp]"
      and empty: "resp = Some JNull \<or> resp = Some (JArray [])"
  shows "printed as = Println ''No locations found'' \<and> diagnostics as = [] \<and> code = 0"
proof -
  have short: "\<not> length args < 5"
  proof
    assume "length args < 5"
    with tr cmd have "filter is_Received as = []"
      by (auto simp: command_def Let_def trace_iffs)
    with rcv show False by simp
  qed
  obtain line col where pos: "parsePosition (args ! 3) (args ! 4) = Inr (line, col)"
  proof (cases "parsePosition (args ! 3) (args ! 4)")
    case (Inl e)
    with tr cmd short have "filter is_Received as = []"
      by (auto simp: command_def Let_def trace_iffs)
    with rcv show ?thesis by simp
  next
    case (Inr lc)
    with that show ?thesis by (cases lc) simp
  qed
  from cmd consider "args ! 1 = ''definition'' \<or> args ! 1 = ''def''"
    | "args ! 1 = ''references'' \<or> args ! 1 = ''refs''" by blast
  then show ?thesis
  proof cases
    case 1
    with tr short pos have
      "trace (bind (Definition absPath line col) (\<lambda>err. finish err ''Error getting definition: ''))
         as (Return code)"
      by (auto simp: command_def Let_def)
    then show ?thesis
      by (rule query_finish) (use Definition_returns rcv empty in blast)+
  next
    case 2
    with tr short pos have
      "trace (bind (References absPath line col) (\<lambda>err. finish err ''Error getting references: ''))
         as (Return code)"
      by (auto simp: command_def Let_def)
    then show ?thesis
      by (rule query_finish) (use References_returns rcv empty in blast)+
  qed
qed


lemma Initialize_received:
  "trace (Initialize root) as (Return x) \<Longrightarrow> length (filter is_Received as) \<le> 1"
  using Initialize_returns by blast

lemma main_shape:
  assumes "trace (main args) as (Return code)"
      and "\<not> length (filter is_Received as) \<le> 1"
  shows "\<exists>absPath root as1 as2 pre.
            trace (Initialize root) as1 (Return None) \<and>
            trace (command args absPath) as2 (Return code) \<and>
            as = pre @ as1 @ as2 \<and> printed pre = [] \<and> diagnostics pre = [] \<and>
            filter is_Received pre = []"
proof -
  define Q where "Q as \<longleftrightarrow> (\<exists>absPath root as1 as2 pre.
            trace (Initialize root) as1 (Return None) \<and>
            trace (command args absPath) as2 (Return code) \<and>
            as = pre @ as1 @ as2 \<and> printed pre = [] \<and> diagnostics pre = [] \<and>
            filter is_Received pre = [])" for as
  have base: "Q (as1 @ as2)"
    if "trace (Initialize root) as1 (Return None)" "trace (command args absPath) as2 (Return code)"
    for root as1 absPath as2
    unfolding Q_def using that by (intro exI [of _ "[]"] exI conjI) auto
  have cons: "Q (Asked q a # as)" if "Q as" for q a as
  proof -
    from that obtain absPath root as1 as2 pre where
      "trace (Initialize root) as1 (Return None)" "trace (command args absPath) as2 (Return code)"
      "as = pre @ as1 @ as2" "printed pre = []" "diagnostics pre = []" "filter is_Received pre = []"
      unfolding Q_def by blast
    then show ?thesis
      unfolding Q_def
      by (intro exI [of _ "Asked q a # pre"] exI [of _ absPath] exI [of _ root]
            exI [of _ as1] exI [of _ as2] conjI) auto
  qed
  have "Q as"
    using assms
    unfolding main_def NewLSPClient_def findGitRoot_def printUsage_def Let_def
    by (auto simp: trace_iffs trace_cases trace_bind_Return intro!: cons base
        dest: Initialize_received)
  then show ?thesis unfolding Q_def .
qed


text \<open>
  C8, as the code has it: take a run of \<^verbatim>\<open>main\<close> with the command \<open>definition\<close>,
  \<open>def\<close>, \<open>references\<close> or \<open>refs\<close> that has returned, in which the calling goroutine
  received two messages: the response to \<open>initialize\<close> and the result of the query. If
  that result is \<open>null\<close> or the empty list, then all the process has printed is the
  line \<open>No locations found\<close> (with a capital N), nothing went to standard error, and
  the exit code is 0.
\<close>

theorem no_locations_found:
  assumes run: "run es (main args, process mem output) = (Return code, c)"
      and cmd: "args ! 1 = ''definition'' \<or> args ! 1 = ''def'' \<or>
                args ! 1 = ''references'' \<or> args ! 1 = ''refs''"
      and rcv: "filter is_Received (history c) = [Received ch1 resp1, Received ch2 resp2]"
      and empty: "resp2 = Some JNull \<or> resp2 = Some (JArray [])"
  shows "printed (history c) = Println ''No locations found'' \<and>
         diagnostics (history c) = [] \<and> code = 0"
proof -
  from run_trace [OF run] have tr: "trace (main args) (own (history c)) (Return code)"
    by (simp add: process_def)
  from rcv have two: "filter is_Received (own (history c)) = [Received ch1 resp1, Received ch2 resp2]"
    by (simp add: filter_Received_own)
  then have "\<not> length (filter is_Received (own (history c))) \<le> 1" by simp
  from main_shape [OF tr this] obtain absPath root as1 as2 pre where
    i: "trace (Initialize root) as1 (Return None)" and
    k: "trace (command args absPath) as2 (Return code)" and
    h: "own (history c) = pre @ as1 @ as2" and
    pre: "printed pre = []" "diagnostics pre = []" "filter is_Received pre = []"
    by blast
  from Initialize_returns [OF i] have as1: "printed as1 = []" "diagnostics as1 = []"
    "length (filter is_Received as1) = 1" by simp_all
  from two h pre have "filter is_Received as1 @ filter is_Received as2 =
    [Received ch1 resp1, Received ch2 resp2]" by simp
  with as1(3) have "filter is_Received as2 = [Received ch2 resp2]"
    by (cases "filter is_Received as1") auto
  from command_locations [OF k cmd this empty] h pre as1
  have "printed (own (history c)) = Println ''No locations found'' \<and>
        diagnostics (own (history c)) = [] \<and> code = 0"
    by (simp add: printed_append diagnostics_append)
  then show ?thesis by (simp add: printed_own diagnostics_own)
qed

text \<open>
  A complete session of \<open>lspit definition a.go 3 5\<close> whose server answers the query
  with a \<open>null\<close> result: the exit code and the history.
\<close>

lemma definition_session:
  "fst (run session_events (main [''lspit'', ''definition'', ''a.go'', ''3'', ''5''], process 4096 null_result))
     = Return 0 \<and>
   history (snd (run session_events
     (main [''lspit'', ''definition'', ''a.go'', ''3'', ''5''], process 4096 null_result))) =
     [Asked (Abs ''a.go'') (Out ''/w/a.go''), Asked (Stat ''/w/a.go'') Ok,
      Asked (GitRevParse ''/w'') Fail, Asked StdinPipe Ok,
      Asked StdoutPipe Ok, Asked StderrPipe Ok, Asked CmdStart Ok, GotID 1,
      Registered 1 0, Written (framed (Marshal (initReq ''/w'' 1))) None,
      Delivered 1 0 (Some (JObject [(''capabilities'', JObject [])])),
      Received 0 (Some (JObject [(''capabilities'', JObject [])])),
      Written (framed (Marshal initializedNotif)) None,
      Asked (ReadFile ''/w/a.go'') (Out (''package a'' @ [LF])),
      Written (framed (Marshal (didOpenNotif ''/w/a.go'' (''package a'' @ [LF])))) None,
      GotID 2, Registered 2 1,
      Written (framed (Marshal (defReq ''/w/a.go'' 3 5 2))) None,
      Delivered 2 1 (Some JNull), Received 1 (Some JNull),
      Printed (''No locations found'' @ [LF]), GotID 3,
      Written (framed (Marshal (shutdownReq 3))) None,
      Written (framed (Marshal exitNotif)) None, DoneClosed, StdinClosed,
      Waited None]"
  by (simp add: exec session_events_def null_result_def initialize_response_def)

text \<open>C8, witness: the session above.\<close>

theorem no_locations_found_witness:
  "printed (history (snd (run session_events
     (main [''lspit'', ''definition'', ''a.go'', ''3'', ''5''], process 4096 null_result)))) =
     ''No locations found'' @ [LF] \<and>
   diagnostics (history (snd (run session_events
     (main [''lspit'', ''definition'', ''a.go'', ''3'', ''5''], process 4096 null_result)))) = [] \<and>
   fst (run session_events
     (main [''lspit'', ''definition'', ''a.go'', ''3'', ''5''], process 4096 null_result)) = Return 0"
proof -
  let ?r = "run session_events
     (main [''lspit'', ''definition'', ''a.go'', ''3'', ''5''], process 4096 null_result)"
  have r: "?r = (Return 0, snd ?r)"
    using definition_session by (simp add: prod_eq_iff)
  have rcv: "filter is_Received (history (snd ?r)) =
      [Received 0 (Some (JObject [(''capabilities'', JObject [])])), Received 1 (Some JNull)]"
    using definition_session by simp
  have "fst ?r = Return 0" using definition_session by simp
  with no_locations_found [OF r _ rcv] show ?thesis
    by (simp add: Println_def)
qed

text \<open>
  C8, counterexample: what is printed for an empty list of locations is not the line
  \<open>no locations found\<close> of the claim; the message begins with a capital letter.
\<close>

theorem displayLocations_capital:
  "displayLocations [] = ([''No locations found'' @ [LF]], None) \<and>
   fst (displayLocations []) \<noteq> [''no locations found'' @ [LF]]"
  by (simp add: displayLocations_def Println_def)

subsection \<open>Positions\<close>















subsection \<open>Error responses\<close>

lemma message_member_Result:
  assumes "\<not> field ''result'' (fst m)"
  shows "Result (fst (message_member acc m)) = Result (fst acc)"
  using assms
  by (cases acc; cases m)
     (auto simp: message_member_def split: json.splits option.splits)

lemma foldl_message_member_Result:
  assumes "list_all (\<lambda>m. \<not> field ''result'' (fst m)) ms"
  shows "Result (fst (foldl message_member acc ms)) = Result (fst acc)"
  using assms
  by (induction ms arbitrary: acc) (simp_all add: message_member_Result)

lemma unmarshal_message_no_result:
  assumes "json_value content = Some (JObject ms)"
      and "list_all (\<lambda>m. \<not> field ''result'' (fst m)) ms"
      and "unmarshal_message content = Inr msg"
  shows "Result msg = None"
proof -
  obtain m ok where f: "foldl message_member (\<lparr>ID = None, Result = None\<rparr>, True) ms = (m, ok)"
    by (cases "foldl message_member (\<lparr>ID = None, Result = None\<rparr>, True) ms")
  from assms(1,3) f have "msg = m"
    by (simp add: unmarshal_message_def split: if_splits)
  moreover from foldl_message_member_Result [OF assms(2), of "(\<lparr>ID = None, Result = None\<rparr>, True)"] f
  have "Result m = None" by simp
  ultimately show ?thesis by simp
qed

lemma hoverResult_None:
  "hoverResult None = Return (Some (Errorf ''failed to parse hover response'' SyntaxError))"
  by (simp add: hoverResult_def unmarshal_hover_def)

lemma hoverResult_null:
  "hoverResult (Some JNull) = Print (Println ''No hover information available'') (Return None)"
  by (simp add: hoverResult_def unmarshal_hover_def prints_def)

lemma hoverResult_no_contents:
  assumes "unmarshal_hover resp = Inr JNull"
  shows "hoverResult resp = Print (Println ''No hover information available'') (Return None)"
  using assms by (simp add: hoverResult_def prints_def)

text \<open>
  C10, as the code has it: \<^verbatim>\<open>readLoop\<close> decodes the \<open>id\<close> and \<open>result\<close> members only,
  and a member \<open>error\<close> changes nothing. A message that is an object with no member
  named \<open>result\<close> (up to case) decodes with an empty \<^verbatim>\<open>Result\<close>, which is not the
  message \<open>null\<close>; the reader sends that empty message to the channel registered for
  the id; and \<^verbatim>\<open>Hover\<close> on an empty message returns the error
  \<open>failed to parse hover response\<close> and prints nothing. It prints
  \<open>No hover information available\<close> and returns \<^verbatim>\<open>nil\<close> for every result that
  decodes to no contents: the result \<open>null\<close>, the empty object, and an object whose
  contents are \<open>null\<close>.
\<close>

theorem error_response_result:
  assumes "json_value content = Some (JObject ms)"
      and "list_all (\<lambda>m. \<not> field ''result'' (fst m)) ms"
      and "unmarshal_message content = Inr msg"
  shows "Result msg = None \<and>
         (reader c = Reading \<and> readFrame (memory c) (unread c) = Content content rest \<and>
          ID msg = Some id0 \<and> responses c id0 = Some ch \<and> chans c ch = [] \<longrightarrow>
            reader_step c =
              Some (log (Delivered id0 ch None)
                      (c\<lparr>unread := rest, reader := Select, chans := (chans c)(ch := [None]),
                         responses := (responses c)(id0 := None)\<rparr>))) \<and>
         hoverResult (Result msg) =
           Return (Some (Errorf ''failed to parse hover response'' SyntaxError)) \<and>
         (unmarshal_hover resp = Inr JNull \<longrightarrow>
            hoverResult resp =
              Print (Println ''No hover information available'') (Return None)) \<and>
         unmarshal_hover (Some JNull) = Inr JNull \<and>
         unmarshal_hover (Some (JObject [])) = Inr JNull \<and>
         unmarshal_hover (Some (JObject [(''contents'', JNull)])) = Inr JNull \<and>
         unmarshal_hover (Result msg) \<noteq> Inr JNull \<and>
         message_member (m0, ok) (''error'', v) = (m0, ok)"
proof -
  have "\<not> field ''id'' ''error''" "\<not> field ''result'' ''error''"
    by (simp_all add: field_def)
  then have "message_member (m0, ok) (''error'', v) = (m0, ok)"
    by (simp add: message_member_def)
  moreover note r = unmarshal_message_no_result [OF assms]
  moreover have "reader c = Reading \<and> readFrame (memory c) (unread c) = Content content rest \<and>
          ID msg = Some id0 \<and> responses c id0 = Some ch \<and> chans c ch = [] \<longrightarrow>
            reader_step c =
              Some (log (Delivered id0 ch None)
                      (c\<lparr>unread := rest, reader := Select, chans := (chans c)(ch := [None]),
                         responses := (responses c)(id0 := None)\<rparr>))"
    using assms(3) r by (simp add: reader_step_def dispatch_def log_def)
  moreover have "unmarshal_hover (Some JNull) = Inr JNull"
    "unmarshal_hover (Some (JObject [])) = Inr JNull"
    "unmarshal_hover (Some (JObject [(''contents'', JNull)])) = Inr JNull"
    "unmarshal_hover None \<noteq> Inr JNull"
    by (simp_all add: unmarshal_hover_def hover_member_def field_def)
  ultimately show ?thesis
    by (simp add: hoverResult_None hoverResult_no_contents)
qed

text \<open>
  C10, counterexample: a session of \<open>lspit hover a.go 3 5\<close> whose server answers the
  query with an error response. The waiter receives the empty message, nothing is
  printed, the error is reported and the exit code is 1.
\<close>

theorem error_response_not_null:
  "fst (run session_events
     (main [''lspit'', ''hover'', ''a.go'', ''3'', ''5''], process 4096 error_response)) = Return 1 \<and>
   filter is_Received (history (snd (run session_events
     (main [''lspit'', ''hover'', ''a.go'', ''3'', ''5''], process 4096 error_response)))) =
     [Received 0 (Some (JObject [(''capabilities'', JObject [])])), Received 1 None] \<and>
   printed (history (snd (run session_events
     (main [''lspit'', ''hover'', ''a.go'', ''3'', ''5''], process 4096 error_response)))) = [] \<and>
   diagnostics (history (snd (run session_events
     (main [''lspit'', ''hover'', ''a.go'', ''3'', ''5''], process 4096 error_response)))) =
     [(''Error getting hover info: '',
       Some (Errorf ''failed to parse hover response'' SyntaxError))]"
  by (simp add: exec session_events_def error_response_def initialize_response_def)

text \<open>
  C10, witness: the error response of that session, which decodes with the id 2 and an
  empty \<^verbatim>\<open>Result\<close>.
\<close>

theorem error_response_result_witness:
  \<open>Result \<lparr>ID = Some 2, Result = None\<rparr> = None \<and>
   hoverResult (Result \<lparr>ID = Some 2, Result = None\<rparr>) =
     Return (Some (Errorf ''failed to parse hover response'' SyntaxError)) \<and>
   unmarshal_message ''{"jsonrpc":"2.0","id":2,"error":{"code":-32603,"message":"boom"}}'' =
     Inr \<lparr>ID = Some 2, Result = None\<rparr> \<and>
   hoverResult (Some (JObject [(''contents'', JNull)])) =
     Print (Println ''No hover information available'') (Return None)\<close>
proof -
  have j: \<open>json_value ''{"jsonrpc":"2.0","id":2,"error":{"code":-32603,"message":"boom"}}'' =
      Some (JObject [(''jsonrpc'', JString ''2.0''), (''id'', JNumber ''2''),
                     (''error'', JObject [(''code'', JNumber ''-32603''),
                                          (''message'', JString ''boom'')])])\<close>
    by (simp add: exec)
  have u: \<open>unmarshal_message ''{"jsonrpc":"2.0","id":2,"error":{"code":-32603,"message":"boom"}}'' =
      Inr \<lparr>ID = Some 2, Result = None\<rparr>\<close>
    by (simp add: exec)
  have n: "list_all (\<lambda>m. \<not> field ''result'' (fst m))
      [(''jsonrpc'', JString ''2.0''), (''id'', JNumber ''2''),
       (''error'', JObject [(''code'', JNumber ''-32603''), (''message'', JString ''boom'')])]"
    by (simp add: field_def)
  have h: "unmarshal_hover (Some (JObject [(''contents'', JNull)])) = Inr JNull"
    by (simp add: unmarshal_hover_def hover_member_def field_def)
  from error_response_result [OF j n u, where resp = "Some (JObject [(''contents'', JNull)])"
      and c = "process 0 []" and rest = "[]" and ?id0.0 = 2 and ch = 0 and ?m0.0 = "\<lparr>ID = None, Result = None\<rparr>"
      and ok = True and v = JNull] u h
  show ?thesis by simp
qed

subsection \<open>Results of another shape\<close>

lemma snd_displayHoverInfo: "snd (displayHoverInfo contents) = None"
  by (cases contents) (auto simp: Let_def split: option.splits json.splits)

lemma hoverResult_decoded:
  assumes "unmarshal_hover resp = Inr contents"
  shows "hoverResult resp = prints (fst (displayHoverInfo contents)) (Return None)"
  using assms snd_displayHoverInfo [of contents]
  by (cases "displayHoverInfo contents") (simp add: hoverResult_def)

lemma displayHoverInfo_other:
  assumes "contents \<noteq> JNull" and "\<forall>s. contents \<noteq> JString s" and "\<forall>vs. contents \<noteq> JArray vs"
      and "\<forall>m s. contents = JObject m \<longrightarrow> map_index m ''value'' \<noteq> Some (JString s)"
  shows "displayHoverInfo contents = ([], None)"
  using assms by (cases contents) (auto split: option.splits json.splits)

lemma displayHoverItem_other:
  assumes "\<forall>s. x \<noteq> JString s"
      and "\<forall>m s. x = JObject m \<longrightarrow> map_index m ''value'' \<noteq> Some (JString s)"
  shows "displayHoverItem x = []"
  using assms by (cases x) (auto split: option.splits json.splits)

lemma unmarshal_locations_element:
  assumes "x \<in> set vs" and "x \<noteq> JNull" and "\<forall>ms. x \<noteq> JObject ms"
  shows "unmarshal_locations (Some (JArray vs)) = Inl UnmarshalTypeError"
proof -
  have "x \<noteq> JNull \<Longrightarrow> \<forall>ms. x \<noteq> JObject ms \<Longrightarrow> \<not> snd (location_element x)"
    by (cases x) (simp_all add: location_element_def)
  with assms have "\<not> list_all (\<lambda>v. snd (location_element v)) vs"
    by (auto simp: list_all_iff)
  then show ?thesis by (simp add: unmarshal_locations_def)
qed

text \<open>
  C7, as the code has it: a result that \<^verbatim>\<open>json.Unmarshal\<close> cannot put into the struct
  of the query is returned as the error \<open>failed to parse ... response\<close> around the
  error of the decoder. Such are, for every query, an empty result; for \<^verbatim>\<open>Hover\<close> a
  result that is neither \<open>null\<close> nor an object; for \<^verbatim>\<open>Definition\<close> and \<^verbatim>\<open>References\<close> a
  result that is neither \<open>null\<close> nor an array, and an array with an element that is
  neither \<open>null\<close> nor an object. A hover result that decodes is never an error:
  \<^verbatim>\<open>Hover\<close> prints what \<^verbatim>\<open>displayHoverInfo\<close> prints and returns \<^verbatim>\<open>nil\<close>. For contents
  that are not \<open>null\<close>, a string, an array or an object with a string \<open>value\<close>, nothing
  is printed; for an array, the elements that are neither a string nor an object with
  a string \<open>value\<close> are passed over and the others are printed. A frame whose content
  \<^verbatim>\<open>readLoop\<close> cannot decode as a message is passed over too: the reader goes back to
  its \<^verbatim>\<open>select\<close>, and nothing else changes.
\<close>

theorem decode_errors:
  "(unmarshal_hover resp = Inl err \<longrightarrow>
      hoverResult resp = Return (Some (Errorf ''failed to parse hover response'' err))) \<and>
   (unmarshal_locations resp = Inl err \<longrightarrow>
      definitionResult resp =
        Return (Some (Errorf ''failed to parse definition response'' err)) \<and>
      referencesResult resp =
        Return (Some (Errorf ''failed to parse references response'' err))) \<and>
   hoverResult None = Return (Some (Errorf ''failed to parse hover response'' SyntaxError)) \<and>
   definitionResult None =
     Return (Some (Errorf ''failed to parse definition response'' SyntaxError)) \<and>
   referencesResult None =
     Return (Some (Errorf ''failed to parse references response'' SyntaxError)) \<and>
   (v \<noteq> JNull \<and> (\<forall>ms. v \<noteq> JObject ms) \<longrightarrow>
      hoverResult (Some v) =
        Return (Some (Errorf ''failed to parse hover response'' UnmarshalTypeError))) \<and>
   (v \<noteq> JNull \<and> (\<forall>vs. v \<noteq> JArray vs) \<longrightarrow>
      definitionResult (Some v) =
        Return (Some (Errorf ''failed to parse definition response'' UnmarshalTypeError)) \<and>
      referencesResult (Some v) =
        Return (Some (Errorf ''failed to parse references response'' UnmarshalTypeError))) \<and>
   (x \<in> set vs \<and> x \<noteq> JNull \<and> (\<forall>ms. x \<noteq> JObject ms) \<longrightarrow>
      definitionResult (Some (JArray vs)) =
        Return (Some (Errorf ''failed to parse definition response'' UnmarshalTypeError)) \<and>
      referencesResult (Some (JArray vs)) =
        Return (Some (Errorf ''failed to parse references response'' UnmarshalTypeError))) \<and>
   (unmarshal_hover resp = Inr contents \<longrightarrow>
      hoverResult resp = prints (fst (displayHoverInfo contents)) (Return None)) \<and>
   (interface_ok contents \<longrightarrow>
      unmarshal_hover (Some (JObject [(''contents'', contents)])) = Inr contents) \<and>
   snd (displayHoverInfo contents) = None \<and>
   (contents \<noteq> JNull \<and> (\<forall>s. contents \<noteq> JString s) \<and> (\<forall>vs. contents \<noteq> JArray vs) \<and>
    (\<forall>m s. contents = JObject m \<longrightarrow> map_index m ''value'' \<noteq> Some (JString s)) \<longrightarrow>
      displayHoverInfo contents = ([], None)) \<and>
   displayHoverInfo (JArray vs) = (concat (map displayHoverItem vs), None) \<and>
   displayHoverItem (JString str) = [Println str] \<and>
   (map_index m ''value'' = Some (JString str) \<longrightarrow> displayHoverItem (JObject m) = [Println str]) \<and>
   ((\<forall>s. x \<noteq> JString s) \<and>
    (\<forall>m s. x = JObject m \<longrightarrow> map_index m ''value'' \<noteq> Some (JString s)) \<longrightarrow>
      displayHoverItem x = []) \<and>
   (reader c = Reading \<and> readFrame (memory c) (unread c) = Content content rest \<and>
    unmarshal_message content = Inl err \<longrightarrow>
      reader_step c = Some (c\<lparr>unread := rest, reader := Select\<rparr>))"
proof -
  have 1: "v \<noteq> JNull \<and> (\<forall>ms. v \<noteq> JObject ms) \<longrightarrow>
      hoverResult (Some v) =
        Return (Some (Errorf ''failed to parse hover response'' UnmarshalTypeError))"
    by (cases v) (simp_all add: hoverResult_def unmarshal_hover_def)
  have 2: "v \<noteq> JNull \<and> (\<forall>vs. v \<noteq> JArray vs) \<longrightarrow>
      definitionResult (Some v) =
        Return (Some (Errorf ''failed to parse definition response'' UnmarshalTypeError)) \<and>
      referencesResult (Some v) =
        Return (Some (Errorf ''failed to parse references response'' UnmarshalTypeError))"
    by (cases v) (simp_all add: definitionResult_def referencesResult_def unmarshal_locations_def)
  have 3: "x \<in> set vs \<and> x \<noteq> JNull \<and> (\<forall>ms. x \<noteq> JObject ms) \<longrightarrow>
      definitionResult (Some (JArray vs)) =
        Return (Some (Errorf ''failed to parse definition response'' UnmarshalTypeError)) \<and>
      referencesResult (Some (JArray vs)) =
        Return (Some (Errorf ''failed to parse references response'' UnmarshalTypeError))"
    using unmarshal_locations_element [of x vs]
    by (simp add: definitionResult_def referencesResult_def)
  have 4: "interface_ok contents \<longrightarrow>
      unmarshal_hover (Some (JObject [(''contents'', contents)])) = Inr contents"
    by (simp add: unmarshal_hover_def hover_member_def field_def)
  have 5: "contents \<noteq> JNull \<and> (\<forall>s. contents \<noteq> JString s) \<and> (\<forall>vs. contents \<noteq> JArray vs) \<and>
    (\<forall>m s. contents = JObject m \<longrightarrow> map_index m ''value'' \<noteq> Some (JString s)) \<longrightarrow>
      displayHoverInfo contents = ([], None)"
    using displayHoverInfo_other [of contents] by blast
  have 6: "(\<forall>s. x \<noteq> JString s) \<and>
    (\<forall>m s. x = JObject m \<longrightarrow> map_index m ''value'' \<noteq> Some (JString s)) \<longrightarrow>
      displayHoverItem x = []"
    using displayHoverItem_other [of x] by blast
  have 7: "unmarshal_hover resp = Inl err \<longrightarrow>
      hoverResult resp = Return (Some (Errorf ''failed to parse hover response'' err))"
    "unmarshal_locations resp = Inl err \<longrightarrow>
      definitionResult resp =
        Return (Some (Errorf ''failed to parse definition response'' err)) \<and>
      referencesResult resp =
        Return (Some (Errorf ''failed to parse references response'' err))"
    by (simp_all add: hoverResult_def definitionResult_def referencesResult_def)
  have 8: "hoverResult None = Return (Some (Errorf ''failed to parse hover response'' SyntaxError))"
    "definitionResult None =
       Return (Some (Errorf ''failed to parse definition response'' SyntaxError))"
    "referencesResult None =
       Return (Some (Errorf ''failed to parse references response'' SyntaxError))"
    by (simp_all add: hoverResult_def definitionResult_def referencesResult_def
        unmarshal_hover_def unmarshal_locations_def)
  have 9: "unmarshal_hover resp = Inr contents \<longrightarrow>
      hoverResult resp = prints (fst (displayHoverInfo contents)) (Return None)"
    using hoverResult_decoded [of resp contents] by blast
  have 10: "map_index m ''value'' = Some (JString str) \<longrightarrow>
      displayHoverItem (JObject m) = [Println str]"
    by simp
  have 11: "reader c = Reading \<and> readFrame (memory c) (unread c) = Content content rest \<and>
    unmarshal_message content = Inl err \<longrightarrow>
      reader_step c = Some (c\<lparr>unread := rest, reader := Select\<rparr>)"
    by (simp add: reader_step_def)
  from 1 2 3 4 5 6 7 8 9 10 11 show ?thesis
    by (simp add: snd_displayHoverInfo)
qed

text \<open>
  C7, witness: a string as the result of a hover query, an object and an array with a
  string as the result of a location query; as hover contents, an object whose
  \<open>value\<close> is a number, the number 42, and an array of a string and a number; a
  message whose id is a string, and a frame that is no JSON value.
\<close>

theorem decode_errors_witness:
  "hoverResult (Some (JString ''x'')) =
     Return (Some (Errorf ''failed to parse hover response'' UnmarshalTypeError)) \<and>
   definitionResult (Some (JObject [])) =
     Return (Some (Errorf ''failed to parse definition response'' UnmarshalTypeError)) \<and>
   referencesResult (Some (JArray [JObject [], JString ''x''])) =
     Return (Some (Errorf ''failed to parse references response'' UnmarshalTypeError)) \<and>
   displayHoverInfo (JObject [(''value'', JNumber ''1'')]) = ([], None) \<and>
   hoverResult (Some (JObject [(''contents'', JNumber ''42'')])) = Return None \<and>
   hoverResult (Some (JObject [(''contents'', JArray [JString ''a'', JNumber ''42''])])) =
     Print (Println ''a'') (Return None) \<and>
   unmarshal_message (''{'' @ [CHR 0x22] @ ''id'' @ [CHR 0x22] @ '':'' @ [CHR 0x22] @ ''2'' @
                      [CHR 0x22] @ ''}'') = Inl UnmarshalTypeError \<and>
   unmarshal_message ''result'' = Inl SyntaxError"
proof -
  have u: "unmarshal_message (''{'' @ [CHR 0x22] @ ''id'' @ [CHR 0x22] @ '':'' @ [CHR 0x22] @ ''2'' @
                      [CHR 0x22] @ ''}'') = Inl UnmarshalTypeError"
    "unmarshal_message ''result'' = Inl SyntaxError"
    by (simp_all add: exec)
  have m: "\<forall>m s. JObject [(''value'', JNumber ''1'')] = JObject m \<longrightarrow>
             map_index m ''value'' \<noteq> Some (JString s)"
    by (simp add: map_index_def)
  have i: "interface_ok (JNumber ''42'')" "interface_ok (JArray [JString ''a'', JNumber ''42''])"
    by (simp_all add: float64_ok_def Let_def is_digit_def decimal_def digit_val_def)
  note t = decode_errors [where m = "[]" and str = "[]" and err = SyntaxError
      and c = "process 0 []" and content = "''result''" and rest = "[]"]
  note a = t [where resp = "Some (JObject [(''contents'', JNumber ''42'')])"
      and contents = "JNumber ''42''" and v = "JString ''x''"
      and vs = "[JObject [], JString ''x'']" and x = "JString ''x''"]
  note b = t [where resp = "Some (JObject [(''contents'', JArray [JString ''a'', JNumber ''42''])])"
      and contents = "JArray [JString ''a'', JNumber ''42'']" and v = "JObject []"
      and vs = "[JString ''a'', JNumber ''42'']" and x = "JNumber ''42''"]
  note c = t [where resp = None and contents = "JObject [(''value'', JNumber ''1'')]"
      and v = JNull and vs = "[]" and x = JNull]
  from a b c m i u show ?thesis
    by (simp add: prints_def)
qed

text \<open>
  C7, counterexample: a session of \<open>lspit hover a.go 3 5\<close> whose server answers the
  query with the contents 42. Nothing is printed, no error is reported and the exit
  code is 0.
\<close>

theorem number_contents_ignored:
  "fst (run session_events
     (main [''lspit'', ''hover'', ''a.go'', ''3'', ''5''], process 4096 number_contents)) = Return 0 \<and>
   filter is_Received (history (snd (run session_events
     (main [''lspit'', ''hover'', ''a.go'', ''3'', ''5''], process 4096 number_contents)))) =
     [Received 0 (Some (JObject [(''capabilities'', JObject [])])),
      Received 1 (Some (JObject [(''contents'', JNumber ''42'')]))] \<and>
   printed (history (snd (run session_events
     (main [''lspit'', ''hover'', ''a.go'', ''3'', ''5''], process 4096 number_contents)))) = [] \<and>
   diagnostics (history (snd (run session_events
     (main [''lspit'', ''hover'', ''a.go'', ''3'', ''5''], process 4096 number_contents)))) = []"
  by (simp add: exec session_events_def number_contents_def initialize_response_def)

subsection \<open>Frames that cannot be read\<close>

lemma ReadString_line: "LF \<notin> set l \<Longrightarrow> ReadString (l @ LF # rest) = Some (l @ [LF], rest)"
  by (induction l) auto

lemma ReadString_eof: "LF \<notin> set s \<Longrightarrow> ReadString s = None"
  by (induction s) auto

lemma readHeaders_eof: "LF \<notin> set s \<Longrightarrow> readHeaders n s = None"
  by (subst readHeaders.simps) (simp add: ReadString_eof)

lemma readHeaders_blank:
  assumes "LF \<notin> set b" and "TrimSpace (b @ [LF]) = []"
  shows "readHeaders n (b @ LF # rest) = Some (n, rest)"
  using assms by (subst readHeaders.simps) (simp add: ReadString_line)

lemma readHeaders_other:
  assumes "LF \<notin> set l" and "TrimSpace (l @ [LF]) \<noteq> []"
      and "\<not> HasPrefix (TrimSpace (l @ [LF])) ''Content-Length:''"
  shows "readHeaders n (l @ LF # rest) = readHeaders n rest"
  using assms by (subst readHeaders.simps) (simp add: ReadString_line)

lemma readHeaders_length:
  assumes "LF \<notin> set l" and "TrimSpace (l @ [LF]) = ''Content-Length:'' @ w"
  shows "readHeaders n (l @ LF # rest) = readHeaders (fst (Atoi (TrimSpace w))) rest"
  using assms
  by (subst readHeaders.simps) (simp add: ReadString_line SplitN2_def)

lemma readHeaders_nonblank:
  assumes "LF \<notin> set l" and "TrimSpace (l @ [LF]) \<noteq> []"
  shows "\<exists>n'. readHeaders n (l @ LF # rest) = readHeaders n' rest"
  using assms
  by (subst readHeaders.simps) (auto simp: ReadString_line Let_def)

lemma readHeaders_lines_eof:
  assumes "\<forall>l\<in>set ls. LF \<notin> set l \<and> TrimSpace (l @ [LF]) \<noteq> []" and "LF \<notin> set s"
  shows "readHeaders n (lines ls @ s) = None"
  using assms
proof (induction ls arbitrary: n)
  case Nil
  then show ?case by (simp add: lines_def readHeaders_eof)
next
  case (Cons l ls)
  from Cons.prems have l: "LF \<notin> set l" "TrimSpace (l @ [LF]) \<noteq> []" by simp_all
  from readHeaders_nonblank [OF l, of n "lines ls @ s"] obtain n' where
    "readHeaders n (l @ LF # lines ls @ s) = readHeaders n' (lines ls @ s)" by blast
  with Cons show ?case by (simp add: lines_def)
qed

lemma readHeaders_lines_other:
  assumes "\<forall>l\<in>set ls. LF \<notin> set l \<and> TrimSpace (l @ [LF]) \<noteq> [] \<and>
             \<not> HasPrefix (TrimSpace (l @ [LF])) ''Content-Length:''"
  shows "readHeaders n (lines ls @ input) = readHeaders n input"
  using assms
proof (induction ls)
  case Nil
  then show ?case by (simp add: lines_def)
next
  case (Cons l ls)
  then have "readHeaders n (l @ LF # lines ls @ input) = readHeaders n (lines ls @ input)"
    by (simp add: readHeaders_other)
  with Cons show ?case by (simp add: lines_def)
qed

lemma unmarshal_message_empty: "unmarshal_message [] = Inl SyntaxError"
  by (simp add: exec)

lemma Atoi_syntax:
  assumes "v = [] \<or> (\<not> is_digit (hd v) \<and> hd v \<noteq> CHR ''-'' \<and> hd v \<noteq> CHR ''+'')"
  shows "Atoi v = (0, False)"
  using assms by (cases v) (auto simp: Atoi_def)

lemma Atoi_error:
  assumes "Atoi v = (n, False)"
  shows "n = 0 \<or> n = word_of_int MaxInt \<or> n = word_of_int MinInt"
  using assms
  by (auto simp: Atoi_def Let_def split: if_splits prod.splits numError.splits)

lemma sint_MaxInt: "sint (word_of_int MaxInt :: goint) = 2 ^ 63 - 1"
  by (simp add: MaxInt_def)

lemma sint_MinInt: "sint (word_of_int MinInt :: goint) = - (2 ^ 63)"
  by (simp add: MinInt_def)

text \<open>
  C3, as the code has it. Let \<open>b\<close> be a line that is empty once trimmed, and let a
  \<open>Content-Length:\<close> line have the value that \<^verbatim>\<open>Atoi\<close> reads as \<open>n\<close>. (1) When the
  stream ends inside a line of the headers, or after the headers before as many bytes
  as a length that could be allocated says, the read fails; the reader then returns,
  without a word, and never moves again. (2) Headers with no \<open>Content-Length:\<close> line,
  and a \<open>Content-Length:\<close> line whose value \<^verbatim>\<open>Atoi\<close> reads as 0, are no failure: the
  frame has the empty content and the bytes after the empty line are left; the reader,
  which cannot decode the empty content, goes back to its \<^verbatim>\<open>select\<close> and reads on from
  there. \<^verbatim>\<open>Atoi\<close> gives 0, with a syntax error that is dropped, for a value that is
  empty or begins with neither a digit nor a sign. (3) A length that is negative or
  above the largest allocation, as is every value for which \<^verbatim>\<open>Atoi\<close> reports a range
  error, makes \<^verbatim>\<open>make\<close> panic; a length within that bound but beyond the memory the
  runtime can get ends the process too. After either, nothing moves. (4) Header lines
  that do not begin with \<open>Content-Length:\<close> change nothing.
\<close>

theorem readFrame_errors:
  assumes "LF \<notin> set b" and "TrimSpace (b @ [LF]) = []"
      and "LF \<notin> set l" and "TrimSpace (l @ [LF]) = ''Content-Length:'' @ w"
      and "Atoi (TrimSpace w) = (n, ok)"
  shows "((\<forall>h\<in>set ls. LF \<notin> set h \<and> TrimSpace (h @ [LF]) \<noteq> []) \<and> LF \<notin> set s \<longrightarrow>
            readFrame mem (lines ls @ s) = ReadError) \<and>
         (0 \<le> sint n \<and> sint n \<le> maxAlloc \<and> nat (sint n) \<le> mem \<longrightarrow>
            readFrame mem (l @ LF # b @ LF # rest) =
              (if length rest < nat (sint n) then ReadError
               else Content (take (nat (sint n)) rest) (drop (nat (sint n)) rest))) \<and>
         (reader c = Reading \<and> readFrame (memory c) (unread c) = ReadError \<longrightarrow>
            reader_step c = Some (c\<lparr>reader := Returned\<rparr>) \<and>
            reader_step (c\<lparr>reader := Returned\<rparr>) = None) \<and>
         ((\<forall>h\<in>set ls. LF \<notin> set h \<and> TrimSpace (h @ [LF]) \<noteq> [] \<and>
             \<not> HasPrefix (TrimSpace (h @ [LF])) ''Content-Length:'') \<longrightarrow>
            readFrame mem (lines ls @ b @ LF # rest) = Content [] rest \<and>
            readFrame mem (lines ls @ input) = readFrame mem input) \<and>
         (TrimSpace w = [] \<or>
          (\<not> is_digit (hd (TrimSpace w)) \<and> hd (TrimSpace w) \<noteq> CHR ''-'' \<and>
           hd (TrimSpace w) \<noteq> CHR ''+'') \<longrightarrow>
            n = 0 \<and> \<not> ok) \<and>
         (n = 0 \<longrightarrow> readFrame mem (l @ LF # b @ LF # rest) = Content [] rest) \<and>
         (reader c = Reading \<and> readFrame (memory c) (unread c) = Content [] rest \<longrightarrow>
            reader_step c = Some (c\<lparr>unread := rest, reader := Select\<rparr>)) \<and>
         (sint n < 0 \<or> maxAlloc < sint n \<or> (\<not> ok \<and> n \<noteq> 0) \<longrightarrow>
            readFrame mem (l @ LF # b @ LF # rest) = MakePanic) \<and>
         (0 \<le> sint n \<and> sint n \<le> maxAlloc \<and> mem < nat (sint n) \<longrightarrow>
            readFrame mem (l @ LF # b @ LF # rest) = OutOfMemory) \<and>
         (reader c = Reading \<and>
          (readFrame (memory c) (unread c) = MakePanic \<or>
           readFrame (memory c) (unread c) = OutOfMemory) \<longrightarrow>
            reader_step c = Some (c\<lparr>panicked := True\<rparr>) \<and>
            step (p, c\<lparr>panicked := True\<rparr>) e = (p, c\<lparr>panicked := True\<rparr>))"
proof -
  note blank = readHeaders_blank [OF assms(1,2)]
  have h: "readHeaders 0 (l @ LF # b @ LF # rest) = Some (n, rest)"
    using assms(5) by (simp add: readHeaders_length [OF assms(3,4)] blank)
  have 1: "(\<forall>h\<in>set ls. LF \<notin> set h \<and> TrimSpace (h @ [LF]) \<noteq> []) \<and> LF \<notin> set s \<longrightarrow>
            readFrame mem (lines ls @ s) = ReadError"
    by (simp add: readFrame_def readHeaders_lines_eof)
  have 2: "0 \<le> sint n \<and> sint n \<le> maxAlloc \<and> nat (sint n) \<le> mem \<longrightarrow>
            readFrame mem (l @ LF # b @ LF # rest) =
              (if length rest < nat (sint n) then ReadError
               else Content (take (nat (sint n)) rest) (drop (nat (sint n)) rest))"
    by (simp add: readFrame_def h)
  have 3: "reader c = Reading \<and> readFrame (memory c) (unread c) = ReadError \<longrightarrow>
            reader_step c = Some (c\<lparr>reader := Returned\<rparr>) \<and>
            reader_step (c\<lparr>reader := Returned\<rparr>) = None"
    by (simp add: reader_step_def)
  have 4: "(\<forall>h\<in>set ls. LF \<notin> set h \<and> TrimSpace (h @ [LF]) \<noteq> [] \<and>
             \<not> HasPrefix (TrimSpace (h @ [LF])) ''Content-Length:'') \<longrightarrow>
            readFrame mem (lines ls @ b @ LF # rest) = Content [] rest \<and>
            readFrame mem (lines ls @ input) = readFrame mem input"
    by (simp add: readFrame_def readHeaders_lines_other blank maxAlloc_def)
  have 5: "TrimSpace w = [] \<or>
          (\<not> is_digit (hd (TrimSpace w)) \<and> hd (TrimSpace w) \<noteq> CHR ''-'' \<and>
           hd (TrimSpace w) \<noteq> CHR ''+'') \<longrightarrow>
            n = 0 \<and> \<not> ok"
    using Atoi_syntax [of "TrimSpace w"] assms(5) by auto
  have 6: "n = 0 \<longrightarrow> readFrame mem (l @ LF # b @ LF # rest) = Content [] rest"
    by (simp add: readFrame_def h maxAlloc_def)
  have 7: "reader c = Reading \<and> readFrame (memory c) (unread c) = Content [] rest \<longrightarrow>
            reader_step c = Some (c\<lparr>unread := rest, reader := Select\<rparr>)"
    by (simp add: reader_step_def unmarshal_message_empty)
  have 8: "sint n < 0 \<or> maxAlloc < sint n \<or> (\<not> ok \<and> n \<noteq> 0) \<longrightarrow>
            readFrame mem (l @ LF # b @ LF # rest) = MakePanic"
  proof
    assume a: "sint n < 0 \<or> maxAlloc < sint n \<or> (\<not> ok \<and> n \<noteq> 0)"
    have "sint n < 0 \<or> maxAlloc < sint n"
    proof (cases "\<not> ok \<and> n \<noteq> 0")
      case True
      with Atoi_error [of "TrimSpace w" n] assms(5)
      have "n = word_of_int MaxInt \<or> n = word_of_int MinInt" by simp
      then show ?thesis
        using sint_MaxInt sint_MinInt by (auto simp: maxAlloc_def)
    next
      case False
      with a show ?thesis by blast
    qed
    then show "readFrame mem (l @ LF # b @ LF # rest) = MakePanic"
      by (auto simp: readFrame_def h)
  qed
  have 9: "0 \<le> sint n \<and> sint n \<le> maxAlloc \<and> mem < nat (sint n) \<longrightarrow>
            readFrame mem (l @ LF # b @ LF # rest) = OutOfMemory"
    by (simp add: readFrame_def h)
  have 10: "reader c = Reading \<and>
          (readFrame (memory c) (unread c) = MakePanic \<or>
           readFrame (memory c) (unread c) = OutOfMemory) \<longrightarrow>
            reader_step c = Some (c\<lparr>panicked := True\<rparr>) \<and>
            step (p, c\<lparr>panicked := True\<rparr>) e = (p, c\<lparr>panicked := True\<rparr>)"
    by (auto simp: reader_step_def step_def)
  from 1 2 3 4 5 6 7 8 9 10 show ?thesis by blast
qed

text \<open>
  C3, witness: the stream ends inside the headers and inside the content; a complete
  frame; a frame without a length and one with the length \<open>abc\<close>; the lengths -5,
  \<open>99999999999999999999 bytes\<close> and, with 4096 bytes of memory, 5000.
\<close>

theorem readFrame_errors_witness:
  "readFrame 4096 (''X-Header: 1'' @ [CR, LF] @ ''Content-Len'') = ReadError \<and>
   readFrame 4096 (''Content-Length: 4'' @ [CR, LF, CR, LF] @ ''nul'') = ReadError \<and>
   readFrame 4096 (''Content-Length: 4'' @ [CR, LF, CR, LF] @ ''nulltail'') =
     Content ''null'' ''tail'' \<and>
   readFrame 4096 (''X-Header: 1'' @ [CR, LF, CR, LF] @ ''tail'') = Content [] ''tail'' \<and>
   readFrame 4096 (''Content-Length: abc'' @ [CR, LF, CR, LF] @ ''tail'') = Content [] ''tail'' \<and>
   readFrame 4096 (''Content-Length: -5'' @ [CR, LF, CR, LF] @ ''tail'') = MakePanic \<and>
   readFrame 4096 (''Content-Length: 99999999999999999999 bytes'' @ [CR, LF, CR, LF] @ ''tail'') =
     MakePanic \<and>
   readFrame 4096 (''Content-Length: 5000'' @ [CR, LF, CR, LF] @ ''tail'') = OutOfMemory"
proof -
  have b: "LF \<notin> set [CR]" "TrimSpace ([CR] @ [LF]) = []"
    by (simp_all add: exec)
  have x: "\<forall>h\<in>set [''X-Header: 1'' @ [CR]]. LF \<notin> set h \<and> TrimSpace (h @ [LF]) \<noteq> [] \<and>
             \<not> HasPrefix (TrimSpace (h @ [LF])) ''Content-Length:''"
    "LF \<notin> set ''Content-Len''"
    by (simp_all add: exec)
  have l4: "LF \<notin> set (''Content-Length: 4'' @ [CR])"
    "TrimSpace ((''Content-Length: 4'' @ [CR]) @ [LF]) = ''Content-Length:'' @ '' 4''"
    "Atoi (TrimSpace '' 4'') = (4, True)"
    by (simp_all add: exec)
  have la: "LF \<notin> set (''Content-Length: abc'' @ [CR])"
    "TrimSpace ((''Content-Length: abc'' @ [CR]) @ [LF]) = ''Content-Length:'' @ '' abc''"
    "Atoi (TrimSpace '' abc'') = (0, False)"
    by (simp_all add: exec)
  have ln: "LF \<notin> set (''Content-Length: -5'' @ [CR])"
    "TrimSpace ((''Content-Length: -5'' @ [CR]) @ [LF]) = ''Content-Length:'' @ '' -5''"
    "Atoi (TrimSpace '' -5'') = (- 5, True)"
    by (simp_all add: exec)
  have lb: "LF \<notin> set (''Content-Length: 99999999999999999999 bytes'' @ [CR])"
    "TrimSpace ((''Content-Length: 99999999999999999999 bytes'' @ [CR]) @ [LF]) =
       ''Content-Length:'' @ '' 99999999999999999999 bytes''"
    "Atoi (TrimSpace '' 99999999999999999999 bytes'') = (word_of_int MaxInt, False)"
    by (simp_all add: exec)
  have lm: "LF \<notin> set (''Content-Length: 5000'' @ [CR])"
    "TrimSpace ((''Content-Length: 5000'' @ [CR]) @ [LF]) = ''Content-Length:'' @ '' 5000''"
    "Atoi (TrimSpace '' 5000'') = (5000, True)"
    by (simp_all add: exec)
  note t = readFrame_errors [OF b, where mem = 4096 and ls = "[''X-Header: 1'' @ [CR]]"
      and s = "''Content-Len''" and c = "process 0 []" and input = "[]" and p = "Return ()"
      and e = Reader]
  from t [OF l4, where rest = "''nul''"] t [OF l4, where rest = "''nulltail''"]
    t [OF l4, where rest = "''tail''"] t [OF la, where rest = "''tail''"]
    t [OF ln, where rest = "''tail''"] t [OF lb, where rest = "''tail''"]
    t [OF lm, where rest = "''tail''"] x
  show ?thesis by (simp add: lines_def maxAlloc_def MaxInt_def)
qed

text \<open>
  C3, counterexample: the server writes headers without a length, then a frame with
  the length \<open>abc\<close>, then the response to \<open>initialize\<close>. The reader reads three frames
  and is back at its \<^verbatim>\<open>select\<close>; \<^verbatim>\<open>Initialize\<close> receives the response and returns
  \<^verbatim>\<open>nil\<close>.
\<close>

theorem missing_length_not_fatal:
  "readFrame 4096 (headers_without_length @ initialize_response) =
     Content [] (''Content-Length: abc'' @ [CR, LF, CR, LF] @ initialize_response) \<and>
   readFrame 4096 (''Content-Length: abc'' @ [CR, LF, CR, LF] @ initialize_response) =
     Content [] initialize_response \<and>
   fst (run [Caller Ok, Caller Ok, Caller Ok, Reader, Reader, Reader, Reader, Reader, Reader,
             Caller Ok, Caller Ok]
          (Initialize ''/w'', started 4096 (headers_without_length @ initialize_response))) =
     Return None \<and>
   reader (snd (run [Caller Ok, Caller Ok, Caller Ok, Reader, Reader, Reader, Reader, Reader, Reader,
             Caller Ok, Caller Ok]
          (Initialize ''/w'', started 4096 (headers_without_length @ initialize_response)))) = Select \<and>
   filter is_Received (history (snd (run [Caller Ok, Caller Ok, Caller Ok, Reader, Reader, Reader,
             Reader, Reader, Reader, Caller Ok, Caller Ok]
          (Initialize ''/w'', started 4096 (headers_without_length @ initialize_response))))) =
     [Received 0 (Some (JObject [(''capabilities'', JObject [])]))]"
  by (simp add: exec headers_without_length_def initialize_response_def)

subsection \<open>Delivering a response\<close>

lemma chans_ok_process: "chans_ok (process mem output)"
  by (simp add: chans_ok_def process_def locked_def)

lemma dispatch_registered:
  assumes "chans_ok c" and "ID msg = Some id0" and "responses c id0 = Some ch"
  shows "dispatch msg c =
           Some (log (Delivered id0 ch (Result msg))
                   (c\<lparr>chans := (chans c)(ch := [Result msg]),
                      responses := (responses c)(id0 := None)\<rparr>))"
  using assms by (simp add: dispatch_def chans_ok_def)

lemma dispatch_unregistered:
  assumes "ID msg = Some id0" and "responses c id0 = None"
  shows "dispatch msg c = Some c"
  using assms by (simp add: dispatch_def)

lemma chans_ok_dispatch:
  assumes "chans_ok c"
  shows "\<exists>c'. dispatch msg c = Some c' \<and> chans_ok c'"
proof (cases "ID msg")
  case None
  with assms show ?thesis by (simp add: dispatch_def)
next
  case (Some id0)
  show ?thesis
  proof (cases "responses c id0")
    case None
    with Some assms show ?thesis by (simp add: dispatch_def)
  next
    case (Some ch)
    have "chans_ok (log (Delivered id0 ch (Result msg))
                   (c\<lparr>chans := (chans c)(ch := [Result msg]),
                      responses := (responses c)(id0 := None)\<rparr>))"
      using assms Some
      unfolding chans_ok_def log_def locked_def
      by (auto split: if_splits)
    with dispatch_registered [OF assms \<open>ID msg = Some id0\<close> Some] show ?thesis by simp
  qed
qed

lemma not_locked_iff: "\<not> locked c \<longleftrightarrow> (\<forall>msg. reader c \<noteq> Sending msg)"
  by (cases "reader c") (simp_all add: locked_def)

lemma chans_ok_other_fields:
  assumes "chans_ok c" and "\<forall>msg. r \<noteq> Sending msg"
  shows "chans_ok (c\<lparr>reader := r\<rparr>)" "chans_ok (c\<lparr>unread := u, reader := r\<rparr>)"
    "chans_ok (c\<lparr>panicked := b\<rparr>)"
  using assms by (simp_all add: chans_ok_def not_locked_iff)

lemma chans_ok_log: "chans_ok (log a c) = chans_ok c"
  by (simp add: chans_ok_def log_def not_locked_iff)

lemma chans_ok_nextID: "chans_ok (c\<lparr>nextID := n\<rparr>) = chans_ok c"
  by (simp add: chans_ok_def not_locked_iff)

lemma chans_ok_reader_step:
  assumes "chans_ok c" and "reader_step c = Some c'"
  shows "chans_ok c'"
proof (cases "reader c")
  case NotStarted
  with assms show ?thesis by (simp add: reader_step_def)
next
  case Select
  with assms show ?thesis by (auto simp: reader_step_def intro: chans_ok_other_fields)
next
  case Reading
  show ?thesis
  proof (cases "readFrame (memory c) (unread c)")
    case ReadError
    with Reading assms show ?thesis by (auto simp: reader_step_def intro: chans_ok_other_fields)
  next
    case MakePanic
    with Reading assms show ?thesis by (auto simp: reader_step_def intro: chans_ok_other_fields)
  next
    case OutOfMemory
    with Reading assms show ?thesis by (auto simp: reader_step_def intro: chans_ok_other_fields)
  next
    case (Content content rest)
    from assms(1) have ok: "chans_ok (c\<lparr>unread := rest, reader := Select\<rparr>)"
      by (simp add: chans_ok_other_fields)
    show ?thesis
    proof (cases "unmarshal_message content")
      case (Inl e)
      with Content Reading assms(2) ok show ?thesis
        by (auto simp: reader_step_def)
    next
      case (Inr msg)
      from chans_ok_dispatch [OF ok, of msg] Inr Content Reading assms(2)
      show ?thesis by (auto simp: reader_step_def)
    qed
  qed
next
  case (Sending msg)
  with assms show ?thesis by (simp add: chans_ok_def not_locked_iff)
next
  case Returned
  with assms show ?thesis by (simp add: reader_step_def)
qed

lemma chans_ok_registerResponse:
  assumes "chans_ok c"
  shows "chans_ok (snd (registerResponse id0 c))"
proof -
  from assms have b: "\<And>i ch. responses c i = Some ch \<Longrightarrow> ch < nchans c \<and> chans c ch = []"
    and inj: "\<And>i j ch. responses c i = Some ch \<Longrightarrow> responses c j = Some ch \<Longrightarrow> i = j"
    and l: "\<forall>msg. reader c \<noteq> Sending msg"
    by (auto simp: chans_ok_def not_locked_iff)
  let ?c = "snd (registerResponse id0 c)"
  have r: "responses ?c = (responses c)(id0 \<mapsto> nchans c)"
    "chans ?c = (chans c)(nchans c := [])" "nchans ?c = Suc (nchans c)" "reader ?c = reader c"
    by (simp_all add: registerResponse_def Let_def)
  have 1: "\<forall>i ch. responses ?c i = Some ch \<longrightarrow> ch < nchans ?c \<and> chans ?c ch = []"
    using b by (auto simp: r less_Suc_eq)
  have 2: "\<forall>i j ch. responses ?c i = Some ch \<and> responses ?c j = Some ch \<longrightarrow> i = j"
  proof (intro allI impI, elim conjE)
    fix i j ch
    assume i: "responses ?c i = Some ch" and j: "responses ?c j = Some ch"
    show "i = j"
    proof (cases "ch = nchans c")
      case True
      with i b have "i = id0" by (auto simp: r split: if_splits)
      moreover from True j b have "j = id0" by (auto simp: r split: if_splits)
      ultimately show ?thesis by simp
    next
      case False
      with i j have "responses c i = Some ch" "responses c j = Some ch"
        by (auto simp: r split: if_splits)
      then show ?thesis by (rule inj)
    qed
  qed
  from 1 2 l show ?thesis
    unfolding chans_ok_def not_locked_iff r by blast
qed

lemma chans_ok_recv:
  assumes "chans_ok c" and "chans c ch = v # vs"
  shows "chans_ok (c\<lparr>chans := (chans c)(ch := vs)\<rparr>)"
  using assms unfolding chans_ok_def not_locked_iff by auto

lemma chans_ok_caller_step:
  assumes "chans_ok c" and "caller_step a p c = Some (p', c')"
  shows "chans_ok c'"
proof (cases p)
  case (Return r)
  with assms show ?thesis by simp
next
  case (GetNextID k)
  with assms show ?thesis
    by (auto simp: chans_ok_log getNextID_def Let_def chans_ok_nextID split: if_splits)
next
  case (RegisterResponse id0 k)
  with assms(2) have "c' = log (Registered id0 (fst (registerResponse id0 c)))
      (snd (registerResponse id0 c))"
    by (auto split: if_splits prod.splits)
  with chans_ok_registerResponse [OF assms(1), of id0] show ?thesis
    by (simp add: chans_ok_log)
next
  case (StdinWrite d k)
  with assms show ?thesis by (auto simp: chans_ok_log Let_def)
next
  case (Recv ch k)
  with assms show ?thesis
    by (auto simp: chans_ok_log chans_ok_recv split: list.splits)
next
  case (Print s q)
  with assms show ?thesis by (auto simp: chans_ok_log)
next
  case (PrintErr s e q)
  with assms show ?thesis by (auto simp: chans_ok_log)
next
  case (Ask q k)
  with assms show ?thesis by (auto simp: chans_ok_log)
next
  case (Spawn q)
  with assms show ?thesis by (auto simp: chans_ok_def not_locked_iff)
next
  case (CloseDone q)
  with assms show ?thesis
    by (auto simp: log_def chans_ok_def not_locked_iff split: if_splits)
next
  case (StdinClose q)
  with assms show ?thesis by (auto simp: log_def chans_ok_def not_locked_iff)
next
  case (CmdWait k)
  with assms show ?thesis by (auto simp: chans_ok_log Let_def)
qed

lemma chans_ok_step:
  assumes "chans_ok (snd s)"
  shows "chans_ok (snd (step s e))"
proof (cases s)
  case (Pair p c)
  with assms have c: "chans_ok c" by simp
  show ?thesis
  proof (cases e)
    case Reader
    with Pair c show ?thesis
      by (auto simp: step_def split: option.splits dest: chans_ok_reader_step)
  next
    case (Caller a)
    with Pair c show ?thesis
      by (auto simp: step_def split: option.splits dest: chans_ok_caller_step)
  qed
qed

lemma chans_ok_run:
  assumes "chans_ok (snd s)"
  shows "chans_ok (snd (run es s))"
  using assms
  by (induction es arbitrary: s) (simp_all add: run_def chans_ok_step)

text \<open>
  C2: take any program of the calling goroutine and any run of it, from the start of
  the process; let the reader have read a frame that decodes to a message with an id.
  If a channel is registered for the id, the reader's step puts the result into that
  channel, which was empty and now holds just this result, removes the entry, and
  leaves every other entry and channel as it was; the reader is back at its
  \<^verbatim>\<open>select\<close>. The same message again would then change nothing, and a receive from
  the channel gets the result and leaves the channel empty. No other id is registered
  with that channel. If no channel is registered for the id, the step changes nothing
  but the reader's position in the stream. In no state of the run does the reader hold
  the lock waiting to send.
\<close>

theorem deliver_once:
  assumes "c = snd (run es (p, process mem output))"
      and "reader c = Reading" and "readFrame (memory c) (unread c) = Content content rest"
      and "unmarshal_message content = Inr msg" and "ID msg = Some id0"
  shows "(\<forall>ch. responses c id0 = Some ch \<longrightarrow>
            (let c' = log (Delivered id0 ch (Result msg))
                        (c\<lparr>unread := rest, reader := Select,
                           chans := (chans c)(ch := [Result msg]),
                           responses := (responses c)(id0 := None)\<rparr>)
             in reader_step c = Some c' \<and>
                dispatch msg c' = Some c' \<and>
                caller_step a (Recv ch k) c' =
                  Some (k (Result msg),
                        log (Received ch (Result msg)) (c'\<lparr>chans := (chans c')(ch := [])\<rparr>))) \<and>
            chans c ch = [] \<and>
            (\<forall>j. j \<noteq> id0 \<longrightarrow> responses c j \<noteq> Some ch)) \<and>
         (responses c id0 = None \<longrightarrow>
            reader_step c = Some (c\<lparr>unread := rest, reader := Select\<rparr>)) \<and>
         \<not> locked c"
proof -
  have ok: "chans_ok c"
    using chans_ok_run [of "(p, process mem output)" es] assms(1) by (simp add: chans_ok_process)
  then have ok': "chans_ok (c\<lparr>unread := rest, reader := Select\<rparr>)"
    by (simp add: chans_ok_other_fields)
  have 1: "responses c id0 = Some ch \<longrightarrow>
            (let c' = log (Delivered id0 ch (Result msg))
                        (c\<lparr>unread := rest, reader := Select,
                           chans := (chans c)(ch := [Result msg]),
                           responses := (responses c)(id0 := None)\<rparr>)
             in reader_step c = Some c' \<and>
                dispatch msg c' = Some c' \<and>
                caller_step a (Recv ch k) c' =
                  Some (k (Result msg),
                        log (Received ch (Result msg)) (c'\<lparr>chans := (chans c')(ch := [])\<rparr>))) \<and>
            chans c ch = [] \<and>
            (\<forall>j. j \<noteq> id0 \<longrightarrow> responses c j \<noteq> Some ch)" for ch
  proof
    assume r: "responses c id0 = Some ch"
    from dispatch_registered [OF ok' assms(5), of ch] r
    have "reader_step c = Some (log (Delivered id0 ch (Result msg))
                        (c\<lparr>unread := rest, reader := Select,
                           chans := (chans c)(ch := [Result msg]),
                           responses := (responses c)(id0 := None)\<rparr>))"
      using assms(2-4) by (simp add: reader_step_def)
    moreover from ok r have "chans c ch = []" "\<forall>j. j \<noteq> id0 \<longrightarrow> responses c j \<noteq> Some ch"
      unfolding chans_ok_def by blast+
    ultimately show "(let c' = log (Delivered id0 ch (Result msg))
                        (c\<lparr>unread := rest, reader := Select,
                           chans := (chans c)(ch := [Result msg]),
                           responses := (responses c)(id0 := None)\<rparr>)
             in reader_step c = Some c' \<and>
                dispatch msg c' = Some c' \<and>
                caller_step a (Recv ch k) c' =
                  Some (k (Result msg),
                        log (Received ch (Result msg)) (c'\<lparr>chans := (chans c')(ch := [])\<rparr>))) \<and>
            chans c ch = [] \<and>
            (\<forall>j. j \<noteq> id0 \<longrightarrow> responses c j \<noteq> Some ch)"
      using assms(5) by (simp add: Let_def dispatch_def log_def)
  qed
  have 2: "responses c id0 = None \<longrightarrow>
            reader_step c = Some (c\<lparr>unread := rest, reader := Select\<rparr>)"
    using assms(2-5) by (simp add: reader_step_def dispatch_def)
  from ok have 3: "\<not> locked c" by (simp add: chans_ok_def)
  from 1 2 3 show ?thesis by blast
qed

text \<open>
  C2, witness: \<^verbatim>\<open>Initialize\<close> has written its request and the reader is about to read
  the response; its step puts the result into channel 0 and removes the entry of id 1.
\<close>

theorem deliver_once_witness:
  "\<exists>c'. reader_step (snd (run [Caller Ok, Caller Ok, Caller Ok, Caller Ok, Reader]
                       (Spawn (Initialize ''/w''), process 4096 initialize_response))) = Some c' \<and>
        chans c' 0 = [Some (JObject [(''capabilities'', JObject [])])] \<and>
        responses c' 1 = None \<and> reader c' = Select \<and> unread c' = []"
proof -
  define c where "c = snd (run [Caller Ok, Caller Ok, Caller Ok, Caller Ok, Reader]
                       (Spawn (Initialize ''/w''), process 4096 initialize_response))"
  define content where
    \<open>content = ''{"jsonrpc":"2.0","id":1,"result":{"capabilities":{}}}''\<close>
  define msg where
    "msg = \<lparr>ID = Some 1, Result = Some (JObject [(''capabilities'', JObject [])])\<rparr>"
  have r: "reader c = Reading" "responses c 1 = Some 0"
    by (simp_all add: c_def exec initialize_response_def)
  have f: "readFrame (memory c) (unread c) = Content content []"
    by (simp add: c_def content_def exec initialize_response_def)
  have m: "unmarshal_message content = Inr msg"
    by (simp add: content_def msg_def exec)
  have i: "ID msg = Some 1"
    by (simp add: msg_def)
  from deliver_once [OF c_def r(1) f m i, where a = Ok and k = Return] r(2)
  have "\<exists>c'. reader_step c = Some c' \<and>
        chans c' 0 = [Some (JObject [(''capabilities'', JObject [])])] \<and>
        responses c' 1 = None \<and> reader c' = Select \<and> unread c' = []"
    by (simp add: Let_def log_def msg_def)
  then show ?thesis
    unfolding c_def .
qed

subsection \<open>The ids of a session\<close>



lemma length_from_id: "length (from_id start n) = n"
  by (simp add: from_id_def)
















































end
